theory Spec2Isabelle
  imports Main "HOL-Library.Word"
begin

unbundle bit_operations_syntax

section \<open>Rockchip USB2.0 PHY (Innosilicon IP): the driver's data\<close>

text \<open>
  The model follows \<^verbatim>\<open>drivers/phy/rockchip/phy-rockchip-inno-usb2.c\<close>. An
  \<^verbatim>\<open>unsigned int\<close> is a 32-bit word, a \<^verbatim>\<open>void *\<close> of the 64-bit targets a 64-bit
  word, an \<^verbatim>\<open>int\<close> status an integer (0 is success, errors are negated errno values).
\<close>

type_synonym u32 = "32 word"
type_synonym addr = "64 word"

definition BIT_WRITEABLE_SHIFT :: nat where
  "BIT_WRITEABLE_SHIFT = 16"

definition ENOSYS :: int where
  "ENOSYS = 38"

definition EINVAL :: int where
  "EINVAL = 22"

datatype rockchip_usb2phy_port_id = USB2PHY_PORT_OTG | USB2PHY_PORT_HOST

record usb2phy_reg =
  offset :: u32
  bitend :: u32
  bitstart :: u32
  disable :: u32
  enable :: u32

record rockchip_usb2phy_port_cfg =
  phy_sus :: usb2phy_reg
  bvalid_det_en :: usb2phy_reg
  bvalid_det_st :: usb2phy_reg
  bvalid_det_clr :: usb2phy_reg
  ls_det_en :: usb2phy_reg
  ls_det_st :: usb2phy_reg
  ls_det_clr :: usb2phy_reg
  utmi_avalid :: usb2phy_reg
  utmi_bvalid :: usb2phy_reg
  utmi_ls :: usb2phy_reg
  utmi_hstdet :: usb2phy_reg

text \<open>
  \<^verbatim>\<open>port_cfgs[USB2PHY_NUM_PORTS]\<close> is an array indexed by the port id: a function of
  the two port ids.
\<close>

record rockchip_usb2phy_cfg =
  reg :: u32
  clkout_ctl :: usb2phy_reg
  port_cfgs :: "rockchip_usb2phy_port_id \<Rightarrow> rockchip_usb2phy_port_cfg"

text \<open>
  \<^verbatim>\<open>struct rockchip_usb2phy\<close>, the private data of a probed PHY: \<^verbatim>\<open>phy_cfg\<close> points
  at the table entry the probe has chosen (the probe fails while it is \<^verbatim>\<open>NULL\<close>, and
  the operations run on a probed PHY only); a clock handle is a number.
\<close>

record rockchip_usb2phy =
  reg_base :: addr
  phyclk :: nat
  phy_cfg :: rockchip_usb2phy_cfg

text \<open>
  The part of \<^verbatim>\<open>struct phy\<close> the driver uses: \<^verbatim>\<open>phy->id\<close> and \<^verbatim>\<open>phy->dev->name\<close>.
  The id indexes \<^verbatim>\<open>port_cfgs\<close>, so it holds one of the two port ids;
  \<^verbatim>\<open>USB2PHY_PORT_OTG\<close>, the first enumerator, is the value 0. The caller owns the
  struct: the id is whatever the caller left in it until \<^verbatim>\<open>of_xlate\<close> assigns it.
\<close>

record phy =
  phy_id :: rockchip_usb2phy_port_id
  dev_name :: string

section \<open>The register block\<close>

text \<open>
  What the driver sees of the hardware: the 32-bit registers of the mapped block, every
  \<^verbatim>\<open>readl\<close> and \<^verbatim>\<open>writel\<close> it issues, in order, and the lines it prints with
  \<^verbatim>\<open>dev_err\<close> (without the numbers formatted into them). The delays
  (\<^verbatim>\<open>usleep_range\<close>) change none of these and are left out.
\<close>

datatype access = Readl addr | Writel addr u32

fun access_addr :: "access \<Rightarrow> addr" where
  "access_addr (Readl a) = a"
| "access_addr (Writel a v) = a"

record hw =
  regs :: "addr \<Rightarrow> u32"
  bus :: "access list"
  console :: "string list"

text \<open>
  Modelled from the spec: \<^verbatim>\<open>writel\<close> and \<^verbatim>\<open>readl\<close> are the platform's I/O
  primitives, not among the sources. The spec gives the registers' convention: the upper
  16 bits of a stored value are a per-bit write-enable mask selecting which of the low 16
  bits take effect. Nothing else of the register changes, and a load changes nothing.
\<close>

definition reg_store :: "u32 \<Rightarrow> u32 \<Rightarrow> u32" where
  "reg_store old val =
     (let wmask = drop_bit 16 val in (old AND NOT wmask) OR (val AND wmask))"

definition writel :: "u32 \<Rightarrow> addr \<Rightarrow> hw \<Rightarrow> hw" where
  "writel val a s =
     s\<lparr>regs := (regs s)(a := reg_store (regs s a) val), bus := bus s @ [Writel a val]\<rparr>"

definition readl :: "addr \<Rightarrow> hw \<Rightarrow> u32 \<times> hw" where
  "readl a s = (regs s a, s\<lparr>bus := bus s @ [Readl a]\<rparr>)"

definition dev_err :: "string \<Rightarrow> hw \<Rightarrow> hw" where
  "dev_err msg s = s\<lparr>console := console s @ [msg]\<rparr>"

text \<open>
  Modelled from the spec: \<^verbatim>\<open>GENMASK\<close> is a macro of \<^verbatim>\<open>linux/bitops.h\<close>, not among
  the sources. The spec calls it \<^verbatim>\<open>bitmask(bit_hi, bit_lo)\<close>: the bits \<open>l\<close> to \<open>h\<close>, here
  within the 32 bits of the \<^verbatim>\<open>unsigned int\<close> it is assigned to.
\<close>

definition GENMASK :: "nat \<Rightarrow> nat \<Rightarrow> u32" where
  "GENMASK h l = push_bit l (- 1) AND mask (Suc h)"

section \<open>Writing and reading a field\<close>

text \<open>
  \<^verbatim>\<open>property_enable\<close> returns what \<^verbatim>\<open>writel\<close> yields; no caller looks at it, so the
  model returns the hardware state only. \<^verbatim>\<open>mask << BIT_WRITEABLE_SHIFT\<close> is computed in
  32 bits: mask bits 16 and above are shifted out. A shift by 32 or more is undefined in
  C; \<open>push_bit\<close> then gives 0.
\<close>

definition reg_addr :: "addr \<Rightarrow> usb2phy_reg \<Rightarrow> addr" where
  "reg_addr base r = base + ucast (offset r)"

definition property_enable :: "addr \<Rightarrow> usb2phy_reg \<Rightarrow> bool \<Rightarrow> hw \<Rightarrow> hw" where
  "property_enable base r en s =
     (let tmp = (if en then enable r else disable r);
          msk = GENMASK (unat (bitend r)) (unat (bitstart r));
          val = push_bit (unat (bitstart r)) tmp OR push_bit BIT_WRITEABLE_SHIFT msk
      in writel val (reg_addr base r) s)"

definition property_enabled :: "addr \<Rightarrow> usb2phy_reg \<Rightarrow> hw \<Rightarrow> bool \<times> hw" where
  "property_enabled base r s =
     (let msk = GENMASK (unat (bitend r)) (unat (bitstart r));
          (orig, s') = readl (reg_addr base r) s;
          tmp = drop_bit (unat (bitstart r)) (orig AND msk)
      in (tmp \<noteq> disable r, s'))"

section \<open>The port operations\<close>

definition us2phy_get_port :: "rockchip_usb2phy \<Rightarrow> phy \<Rightarrow> rockchip_usb2phy_port_cfg" where
  "us2phy_get_port priv p = port_cfgs (phy_cfg priv) (phy_id p)"

definition rockchip_usb2phy_power_on :: "rockchip_usb2phy \<Rightarrow> phy \<Rightarrow> hw \<Rightarrow> int \<times> hw" where
  "rockchip_usb2phy_power_on priv p s =
     (let port_cfg = us2phy_get_port priv p;
          s1 = property_enable (reg_base priv) (phy_sus port_cfg) False s
      in (0, s1))"

definition rockchip_usb2phy_power_off :: "rockchip_usb2phy \<Rightarrow> phy \<Rightarrow> hw \<Rightarrow> int \<times> hw" where
  "rockchip_usb2phy_power_off priv p s =
     (let port_cfg = us2phy_get_port priv p;
          s1 = property_enable (reg_base priv) (phy_sus port_cfg) True s
      in (0, s1))"

text \<open>
  \<^verbatim>\<open>clk_enable\<close> and \<^verbatim>\<open>clk_disable\<close> on \<^verbatim>\<open>priv->phyclk\<close> belong to the clock subsystem:
  the operations take the status that call returned.
\<close>

definition rockchip_usb2phy_init :: "int \<Rightarrow> rockchip_usb2phy \<Rightarrow> phy \<Rightarrow> hw \<Rightarrow> int \<times> hw" where
  "rockchip_usb2phy_init clk_enable_ret priv p s =
     (let port_cfg = us2phy_get_port priv p;
          ret = clk_enable_ret
      in if ret \<noteq> 0 \<and> ret \<noteq> - ENOSYS
         then (ret, dev_err ''failed to enable phyclk'' s)
         else if phy_id p = USB2PHY_PORT_OTG then
           (let s1 = property_enable (reg_base priv) (bvalid_det_clr port_cfg) True s;
                s2 = property_enable (reg_base priv) (bvalid_det_en port_cfg) True s1
            in (0, s2))
         else if phy_id p = USB2PHY_PORT_HOST then
           (let s1 = property_enable (reg_base priv) (bvalid_det_clr port_cfg) True s;
                s2 = property_enable (reg_base priv) (bvalid_det_en port_cfg) True s1
            in (0, s2))
         else (0, s))"

definition rockchip_usb2phy_exit :: "int \<Rightarrow> rockchip_usb2phy \<Rightarrow> phy \<Rightarrow> hw \<Rightarrow> int \<times> hw" where
  "rockchip_usb2phy_exit clk_disable_ret priv p s = (0, s)"

text \<open>
  Modelled from the spec: \<^verbatim>\<open>strcasecmp\<close> is the C library's, not among the sources; the
  spec calls it a case-insensitive match. Letters are compared in lower case; only the
  sign of a nonzero result means anything, and the driver tests for 0 alone.
\<close>

definition tolower :: "char \<Rightarrow> char" where
  "tolower c =
     (let n = (of_char c :: nat) in if 65 \<le> n \<and> n \<le> 90 then char_of (n + 32) else c)"

fun strcasecmp :: "string \<Rightarrow> string \<Rightarrow> int" where
  "strcasecmp [] [] = 0"
| "strcasecmp [] (c2 # s2) = - 1"
| "strcasecmp (c1 # s1) [] = 1"
| "strcasecmp (c1 # s1) (c2 # s2) =
     (if tolower c1 = tolower c2 then strcasecmp s1 s2
      else int (of_char (tolower c1)) - int (of_char (tolower c2)))"

text \<open>\<^verbatim>\<open>args\<close> is not used. The phy is passed by reference and comes back updated.\<close>

definition rockchip_usb2phy_of_xlate :: "phy \<Rightarrow> hw \<Rightarrow> int \<times> phy \<times> hw" where
  "rockchip_usb2phy_of_xlate p s =
     (let name = dev_name p
      in if strcasecmp name ''host-port'' = 0 then (0, p\<lparr>phy_id := USB2PHY_PORT_HOST\<rparr>, s)
         else if strcasecmp name ''otg-port'' = 0 then (0, p\<lparr>phy_id := USB2PHY_PORT_OTG\<rparr>, s)
         else (0, p, dev_err (''improper '' @ name @ '' device'') s))"

section \<open>The clock operations\<close>

definition rockchip_usb2phy_clk_round_rate :: "nat \<Rightarrow> nat" where
  "rockchip_usb2phy_clk_round_rate rate = 480000000"

definition rockchip_usb2phy_clk_enable :: "rockchip_usb2phy \<Rightarrow> hw \<Rightarrow> int \<times> hw" where
  "rockchip_usb2phy_clk_enable priv s =
     (let (on, s1) = property_enabled (reg_base priv) (clkout_ctl (phy_cfg priv)) s
      in if \<not> on
         then (0, property_enable (reg_base priv) (clkout_ctl (phy_cfg priv)) True s1)
         else (0, s1))"

definition rockchip_usb2phy_clk_disable :: "rockchip_usb2phy \<Rightarrow> hw \<Rightarrow> int \<times> hw" where
  "rockchip_usb2phy_clk_disable priv s =
     (0, property_enable (reg_base priv) (clkout_ctl (phy_cfg priv)) False s)"

section \<open>Probe\<close>

text \<open>
  The table is a C array ended by an all-zero entry. The \<^verbatim>\<open>do ... while\<close> loop compares
  the entry at \<open>index\<close> first and tests the next entry's \<open>reg\<close> afterwards. Reading past
  the end of the array is undefined in C: the model says \<open>Overrun\<close>.
\<close>

datatype lookup = Found nat | NotFound | Overrun

function find_phy_cfg :: "rockchip_usb2phy_cfg list \<Rightarrow> u32 \<Rightarrow> nat \<Rightarrow> lookup" where
  "find_phy_cfg phy_cfgs r index =
     (if length phy_cfgs \<le> index then Overrun
      else if reg (phy_cfgs ! index) = r then Found index
      else if length phy_cfgs \<le> Suc index then Overrun
      else if reg (phy_cfgs ! Suc index) \<noteq> 0 then find_phy_cfg phy_cfgs r (Suc index)
      else NotFound)"
  by pat_completeness auto
termination
  by (relation "measure (\<lambda>(phy_cfgs, r, index). length phy_cfgs - index)") auto

declare find_phy_cfg.simps [simp del]

text \<open>
  What the platform answers to the calls of the probe: the mapped register block or an
  error, \<^verbatim>\<open>ofnode_read_u32_index(.., "reg", i, &reg)\<close> as its status and the value
  it stores on success, the number of address cells, the table of the matched compatible
  string (\<open>None\<close> is \<^verbatim>\<open>NULL\<close>), and \<^verbatim>\<open>clk_get_by_name\<close> as its status and the handle.
\<close>

record probe_dt =
  syscon_get_first_range :: "int + addr"
  ofnode_read_u32_index :: "nat \<Rightarrow> int \<times> u32"
  dev_read_addr_cells :: int
  dev_get_driver_data :: "rockchip_usb2phy_cfg list option"
  clk_get_by_name :: "int \<times> nat"

datatype probe_error = Errno int | Table_overrun

text \<open>The probe from the point where \<open>reg\<close> holds the address cell to look up.\<close>

definition probe_find_cfg ::
  "probe_dt \<Rightarrow> addr \<Rightarrow> u32 \<Rightarrow> hw \<Rightarrow> (probe_error + rockchip_usb2phy) \<times> hw" where
  "probe_find_cfg dt base r s =
     (case dev_get_driver_data dt of
        None \<Rightarrow> (Inl (Errno (- EINVAL)), s)
      | Some phy_cfgs \<Rightarrow>
         (case find_phy_cfg phy_cfgs r 0 of
            Overrun \<Rightarrow> (Inl Table_overrun, s)
          | NotFound \<Rightarrow> (Inl (Errno (- EINVAL)), dev_err ''failed find proper phy-cfg'' s)
          | Found index \<Rightarrow>
             (let (ret, clk) = clk_get_by_name dt
              in if ret \<noteq> 0
                 then (Inl (Errno ret), dev_err ''failed to get the phyclk'' s)
                 else (Inr \<lparr>reg_base = base, phyclk = clk, phy_cfg = phy_cfgs ! index\<rparr>, s))))"

definition rockchip_usb2phy_probe :: "probe_dt \<Rightarrow> hw \<Rightarrow> (probe_error + rockchip_usb2phy) \<times> hw" where
  "rockchip_usb2phy_probe dt s =
     (case syscon_get_first_range dt of
        Inl e \<Rightarrow> (Inl (Errno e), s)
      | Inr base \<Rightarrow>
         (let (ret, r0) = ofnode_read_u32_index dt 0
          in if ret \<noteq> 0 then (Inl (Errno ret), dev_err ''failed to read reg property'' s)
             else if dev_read_addr_cells dt = 2 \<and> r0 = 0 then
               (let (ret1, r1) = ofnode_read_u32_index dt 1
                in if ret1 \<noteq> 0
                   then (Inl (Errno (- EINVAL)), dev_err ''must have reg[1]'' s)
                   else probe_find_cfg dt base r1 s)
             else probe_find_cfg dt base r0 s))"

section \<open>The tables\<close>

text \<open>
  A field is written as in the source, \<^verbatim>\<open>{ offset, bitend, bitstart, disable, enable }\<close>;
  what an initialiser leaves out is zero.
\<close>

definition usb2phy_reg_of :: "u32 \<Rightarrow> u32 \<Rightarrow> u32 \<Rightarrow> u32 \<Rightarrow> u32 \<Rightarrow> usb2phy_reg" where
  "usb2phy_reg_of off e b d en =
     \<lparr>offset = off, bitend = e, bitstart = b, disable = d, enable = en\<rparr>"

definition zero_reg :: usb2phy_reg where
  "zero_reg = usb2phy_reg_of 0 0 0 0 0"

definition zero_port_cfg :: rockchip_usb2phy_port_cfg where
  "zero_port_cfg =
     \<lparr>phy_sus = zero_reg, bvalid_det_en = zero_reg, bvalid_det_st = zero_reg,
      bvalid_det_clr = zero_reg, ls_det_en = zero_reg, ls_det_st = zero_reg,
      ls_det_clr = zero_reg, utmi_avalid = zero_reg, utmi_bvalid = zero_reg,
      utmi_ls = zero_reg, utmi_hstdet = zero_reg\<rparr>"

definition ports_of ::
  "rockchip_usb2phy_port_cfg \<Rightarrow> rockchip_usb2phy_port_cfg \<Rightarrow>
   rockchip_usb2phy_port_id \<Rightarrow> rockchip_usb2phy_port_cfg" where
  "ports_of otg host i = (case i of USB2PHY_PORT_OTG \<Rightarrow> otg | USB2PHY_PORT_HOST \<Rightarrow> host)"

definition sentinel :: rockchip_usb2phy_cfg where
  "sentinel = \<lparr>reg = 0, clkout_ctl = zero_reg, port_cfgs = ports_of zero_port_cfg zero_port_cfg\<rparr>"

definition rk3399_usb2phy_cfgs :: "rockchip_usb2phy_cfg list" where
  "rk3399_usb2phy_cfgs =
   [\<lparr>reg = 0xe450,
     clkout_ctl = usb2phy_reg_of 0xe450 4 4 1 0,
     port_cfgs = ports_of
       (zero_port_cfg\<lparr>
          phy_sus := usb2phy_reg_of 0xe454 1 0 2 1,
          bvalid_det_en := usb2phy_reg_of 0xe3c0 3 3 0 1,
          bvalid_det_st := usb2phy_reg_of 0xe3e0 3 3 0 1,
          bvalid_det_clr := usb2phy_reg_of 0xe3d0 3 3 0 1,
          utmi_avalid := usb2phy_reg_of 0xe2ac 7 7 0 1,
          utmi_bvalid := usb2phy_reg_of 0xe2ac 12 12 0 1\<rparr>)
       (zero_port_cfg\<lparr>
          phy_sus := usb2phy_reg_of 0xe458 1 0 0x2 0x1,
          ls_det_en := usb2phy_reg_of 0xe3c0 6 6 0 1,
          ls_det_st := usb2phy_reg_of 0xe3e0 6 6 0 1,
          ls_det_clr := usb2phy_reg_of 0xe3d0 6 6 0 1,
          utmi_ls := usb2phy_reg_of 0xe2ac 22 21 0 1,
          utmi_hstdet := usb2phy_reg_of 0xe2ac 23 23 0 1\<rparr>)\<rparr>,
    \<lparr>reg = 0xe460,
     clkout_ctl = usb2phy_reg_of 0xe460 4 4 1 0,
     port_cfgs = ports_of
       (zero_port_cfg\<lparr>
          phy_sus := usb2phy_reg_of 0xe464 1 0 2 1,
          bvalid_det_en := usb2phy_reg_of 0xe3c0 8 8 0 1,
          bvalid_det_st := usb2phy_reg_of 0xe3e0 8 8 0 1,
          bvalid_det_clr := usb2phy_reg_of 0xe3d0 8 8 0 1,
          utmi_avalid := usb2phy_reg_of 0xe2ac 10 10 0 1,
          utmi_bvalid := usb2phy_reg_of 0xe2ac 16 16 0 1\<rparr>)
       (zero_port_cfg\<lparr>
          phy_sus := usb2phy_reg_of 0xe468 1 0 0x2 0x1,
          ls_det_en := usb2phy_reg_of 0xe3c0 11 11 0 1,
          ls_det_st := usb2phy_reg_of 0xe3e0 11 11 0 1,
          ls_det_clr := usb2phy_reg_of 0xe3d0 11 11 0 1,
          utmi_ls := usb2phy_reg_of 0xe2ac 26 25 0 1,
          utmi_hstdet := usb2phy_reg_of 0xe2ac 27 27 0 1\<rparr>)\<rparr>,
    sentinel]"

definition rk3568_phy_cfgs :: "rockchip_usb2phy_cfg list" where
  "rk3568_phy_cfgs =
   [\<lparr>reg = 0xfe8a0000,
     clkout_ctl = usb2phy_reg_of 0x0008 4 4 1 0,
     port_cfgs = ports_of
       (zero_port_cfg\<lparr>
          phy_sus := usb2phy_reg_of 0x0000 8 0 0x052 0x1d1,
          bvalid_det_en := usb2phy_reg_of 0x0080 2 2 0 1,
          bvalid_det_st := usb2phy_reg_of 0x0084 2 2 0 1,
          bvalid_det_clr := usb2phy_reg_of 0x0088 2 2 0 1,
          ls_det_en := usb2phy_reg_of 0x0080 0 0 0 1,
          ls_det_st := usb2phy_reg_of 0x0084 0 0 0 1,
          ls_det_clr := usb2phy_reg_of 0x0088 0 0 0 1,
          utmi_avalid := usb2phy_reg_of 0x00c0 10 10 0 1,
          utmi_bvalid := usb2phy_reg_of 0x00c0 9 9 0 1,
          utmi_ls := usb2phy_reg_of 0x00c0 5 4 0 1\<rparr>)
       (zero_port_cfg\<lparr>
          phy_sus := usb2phy_reg_of 0x0004 8 0 0x1d2 0x1d1,
          ls_det_en := usb2phy_reg_of 0x0080 1 1 0 1,
          ls_det_st := usb2phy_reg_of 0x0084 1 1 0 1,
          ls_det_clr := usb2phy_reg_of 0x0088 1 1 0 1,
          utmi_ls := usb2phy_reg_of 0x00c0 17 16 0 1,
          utmi_hstdet := usb2phy_reg_of 0x00c0 19 19 0 1\<rparr>)\<rparr>,
    \<lparr>reg = 0xfe8b0000,
     clkout_ctl = usb2phy_reg_of 0x0008 4 4 1 0,
     port_cfgs = ports_of
       (zero_port_cfg\<lparr>
          phy_sus := usb2phy_reg_of 0x0000 8 0 0x1d2 0x1d1,
          ls_det_en := usb2phy_reg_of 0x0080 0 0 0 1,
          ls_det_st := usb2phy_reg_of 0x0084 0 0 0 1,
          ls_det_clr := usb2phy_reg_of 0x0088 0 0 0 1,
          utmi_ls := usb2phy_reg_of 0x00c0 5 4 0 1,
          utmi_hstdet := usb2phy_reg_of 0x00c0 7 7 0 1\<rparr>)
       (zero_port_cfg\<lparr>
          phy_sus := usb2phy_reg_of 0x0004 8 0 0x1d2 0x1d1,
          ls_det_en := usb2phy_reg_of 0x0080 1 1 0 1,
          ls_det_st := usb2phy_reg_of 0x0084 1 1 0 1,
          ls_det_clr := usb2phy_reg_of 0x0088 1 1 0 1,
          utmi_ls := usb2phy_reg_of 0x00c0 17 16 0 1,
          utmi_hstdet := usb2phy_reg_of 0x00c0 19 19 0 1\<rparr>)\<rparr>,
    sentinel]"

definition rk3588_phy_cfgs :: "rockchip_usb2phy_cfg list" where
  "rk3588_phy_cfgs =
   [\<lparr>reg = 0x0000,
     clkout_ctl = zero_reg,
     port_cfgs = ports_of
       (zero_port_cfg\<lparr>
          phy_sus := usb2phy_reg_of 0x000c 11 11 0 1,
          ls_det_en := usb2phy_reg_of 0x0080 0 0 0 1,
          ls_det_st := usb2phy_reg_of 0x0084 0 0 0 1,
          ls_det_clr := usb2phy_reg_of 0x0088 0 0 0 1,
          utmi_ls := usb2phy_reg_of 0x00c0 10 9 0 1\<rparr>)
       zero_port_cfg\<rparr>,
    \<lparr>reg = 0x4000,
     clkout_ctl = zero_reg,
     port_cfgs = ports_of
       (zero_port_cfg\<lparr>
          phy_sus := usb2phy_reg_of 0x000c 11 11 0 0,
          ls_det_en := usb2phy_reg_of 0x0080 0 0 0 1,
          ls_det_st := usb2phy_reg_of 0x0084 0 0 0 1,
          ls_det_clr := usb2phy_reg_of 0x0088 0 0 0 1,
          utmi_ls := usb2phy_reg_of 0x00c0 10 9 0 1\<rparr>)
       zero_port_cfg\<rparr>,
    \<lparr>reg = 0x8000,
     clkout_ctl = zero_reg,
     port_cfgs = ports_of
       zero_port_cfg
       (zero_port_cfg\<lparr>
          phy_sus := usb2phy_reg_of 0x0008 2 2 0 1,
          ls_det_en := usb2phy_reg_of 0x0080 0 0 0 1,
          ls_det_st := usb2phy_reg_of 0x0084 0 0 0 1,
          ls_det_clr := usb2phy_reg_of 0x0088 0 0 0 1,
          utmi_ls := usb2phy_reg_of 0x00c0 10 9 0 1\<rparr>)\<rparr>,
    \<lparr>reg = 0xc000,
     clkout_ctl = zero_reg,
     port_cfgs = ports_of
       zero_port_cfg
       (zero_port_cfg\<lparr>
          phy_sus := usb2phy_reg_of 0x0008 2 2 0 1,
          ls_det_en := usb2phy_reg_of 0x0080 0 0 0 1,
          ls_det_st := usb2phy_reg_of 0x0084 0 0 0 1,
          ls_det_clr := usb2phy_reg_of 0x0088 0 0 0 1,
          utmi_ls := usb2phy_reg_of 0x00c0 10 9 0 1\<rparr>)\<rparr>,
    sentinel]"

section \<open>Notions of the specification\<close>

text \<open>
  The specification's invariant of a field: \<open>bit_hi \<ge> bit_lo\<close>, and both encodings fit in
  \<open>bit_hi - bit_lo + 1\<close> bits.
\<close>

definition field_width :: "usb2phy_reg \<Rightarrow> nat" where
  "field_width r = Suc (unat (bitend r)) - unat (bitstart r)"

definition fits :: "usb2phy_reg \<Rightarrow> u32 \<Rightarrow> bool" where
  "fits r v \<longleftrightarrow> unat v < 2 ^ field_width r"

definition bitfield_inv :: "usb2phy_reg \<Rightarrow> bool" where
  "bitfield_inv r \<longleftrightarrow> bitstart r \<le> bitend r \<and> fits r (disable r) \<and> fits r (enable r)"

definition in_field :: "usb2phy_reg \<Rightarrow> nat \<Rightarrow> bool" where
  "in_field r n \<longleftrightarrow> unat (bitstart r) \<le> n \<and> n \<le> unat (bitend r)"

text \<open>The content of a field in a register value, as \<^verbatim>\<open>property_enabled\<close> extracts it.\<close>

definition field_get :: "usb2phy_reg \<Rightarrow> u32 \<Rightarrow> u32" where
  "field_get r v =
     drop_bit (unat (bitstart r)) (v AND GENMASK (unat (bitend r)) (unat (bitstart r)))"

text \<open>The value \<^verbatim>\<open>property_enable\<close> stores (its local \<^verbatim>\<open>val\<close>).\<close>

definition property_val :: "usb2phy_reg \<Rightarrow> bool \<Rightarrow> u32" where
  "property_val r en =
     push_bit (unat (bitstart r)) (if en then enable r else disable r)
       OR push_bit 16 (GENMASK (unat (bitend r)) (unat (bitstart r)))"

text \<open>A register block whose registers all hold \<open>v\<close>, before any access.\<close>

definition hw_all :: "u32 \<Rightarrow> hw" where
  "hw_all v = \<lparr>regs = (\<lambda>a. v), bus = [], console = []\<rparr>"

text \<open>An absent field: every member is zero, as an initialiser that leaves it out gives.\<close>

definition absent :: "usb2phy_reg \<Rightarrow> bool" where
  "absent r \<longleftrightarrow>
     offset r = 0 \<and> bitend r = 0 \<and> bitstart r = 0 \<and> disable r = 0 \<and> enable r = 0"

definition port_fields :: "rockchip_usb2phy_port_cfg \<Rightarrow> usb2phy_reg list" where
  "port_fields pc =
     [phy_sus pc, bvalid_det_en pc, bvalid_det_st pc, bvalid_det_clr pc, ls_det_en pc,
      ls_det_st pc, ls_det_clr pc, utmi_avalid pc, utmi_bvalid pc, utmi_ls pc, utmi_hstdet pc]"

definition cfg_fields :: "rockchip_usb2phy_cfg \<Rightarrow> usb2phy_reg list" where
  "cfg_fields c =
     clkout_ctl c # port_fields (port_cfgs c USB2PHY_PORT_OTG)
       @ port_fields (port_cfgs c USB2PHY_PORT_HOST)"

text \<open>
  The accesses \<open>as\<close> touch configured fields only: each is at the register of a field of
  the selected configuration that is not absent.
\<close>

definition configured_only :: "rockchip_usb2phy \<Rightarrow> access list \<Rightarrow> bool" where
  "configured_only priv as \<longleftrightarrow>
     list_all (\<lambda>a. list_ex (\<lambda>f. \<not> absent f \<and> access_addr a = reg_addr (reg_base priv) f)
                      (cfg_fields (phy_cfg priv))) as"

text \<open>
  The specification's lookup: scan the entries in order and return the first whose
  \<open>reg\<close> is the address looked up, here as its position.
\<close>

fun first_match :: "rockchip_usb2phy_cfg list \<Rightarrow> u32 \<Rightarrow> nat option" where
  "first_match [] r = None"
| "first_match (c # cs) r = (if reg c = r then Some 0 else map_option Suc (first_match cs r))"

text \<open>
  A node's \<^verbatim>\<open>reg\<close> property as its list of cells: reading cell \<open>i\<close> succeeds while the
  property has one.
\<close>

definition read_cells :: "u32 list \<Rightarrow> nat \<Rightarrow> int \<times> u32" where
  "read_cells cells i = (if i < length cells then (0, cells ! i) else (- EINVAL, 0))"

text \<open>
  The second PHY of an RK3568 board: \<^verbatim>\<open>reg = <0x0 0xfe8b0000 0x0 0x10000>\<close> under two
  address cells; the same node with the property cut after its first cell; and a node of
  an RK3588 table with \<^verbatim>\<open>reg = <0x0 0x4000 0x0 0x10>\<close> under two address cells.
\<close>

definition rk3568_usb2phy1 :: probe_dt where
  "rk3568_usb2phy1 =
     \<lparr>syscon_get_first_range = Inr 0xfdc50000,
      ofnode_read_u32_index = read_cells [0x0, 0xfe8b0000, 0x0, 0x10000],
      dev_read_addr_cells = 2,
      dev_get_driver_data = Some rk3568_phy_cfgs,
      clk_get_by_name = (0, 1)\<rparr>"

definition rk3568_usb2phy1_short :: probe_dt where
  "rk3568_usb2phy1_short = rk3568_usb2phy1\<lparr>ofnode_read_u32_index := read_cells [0x0]\<rparr>"

definition rk3588_two_cells :: probe_dt where
  "rk3588_two_cells =
     \<lparr>syscon_get_first_range = Inr 0xfd5d4000,
      ofnode_read_u32_index = read_cells [0x0, 0x4000, 0x0, 0x10],
      dev_read_addr_cells = 2,
      dev_get_driver_data = Some rk3588_phy_cfgs,
      clk_get_by_name = (0, 1)\<rparr>"

text \<open>
  The specification's resolution, in its words: scan the table for the register base (the
  low cell); if the node has two address cells and the low cell is 0, retry with the high
  cell before failing; fail with \<open>ConfigNotFound\<close> if no entry matches after both attempts,
  and with \<open>MissingAddress\<close> if the high cell cannot be read. \<open>high\<close> is the read of the
  second cell, its status and its value.
\<close>

datatype resolve_error = ConfigNotFound | MissingAddress

definition resolve_retry ::
  "rockchip_usb2phy_cfg list \<Rightarrow> int \<Rightarrow> u32 \<Rightarrow> int \<times> u32 \<Rightarrow> resolve_error + nat" where
  "resolve_retry entries cells low high =
     (case first_match entries low of
        Some i \<Rightarrow> Inr i
      | None \<Rightarrow>
         if cells = 2 \<and> low = 0 then
           (if fst high \<noteq> 0 then Inl MissingAddress
            else case first_match entries (snd high) of
                   Some i \<Rightarrow> Inr i
                 | None \<Rightarrow> Inl ConfigNotFound)
         else Inl ConfigNotFound)"

section \<open>Bits of a stored field\<close>

lemma bit_GENMASK: "bit (GENMASK h l) n \<longleftrightarrow> l \<le> n \<and> n \<le> h \<and> n < 32"
  by (auto simp add: GENMASK_def bit_simps)

lemma fits_bit:
  fixes v :: u32
  assumes "unat v < 2 ^ k" and "k \<le> n"
  shows "\<not> bit v n"
proof
  assume "bit v n"
  then have "bit (unat v) n"
    by (simp add: bit_unsigned_iff bit_imp_possible_bit)
  then have odd: "odd (unat v div 2 ^ n)"
    by (simp add: bit_iff_odd)
  have "(2::nat) ^ k \<le> 2 ^ n"
    using assms(2) by (rule power_increasing) simp
  with assms(1) have "unat v < 2 ^ n"
    by (rule less_le_trans)
  then have "unat v div 2 ^ n = 0"
    by (rule div_less)
  with odd show False
    by simp
qed

lemma bit_reg_store:
  "bit (reg_store old val) n \<longleftrightarrow>
     (if n < 16 \<and> bit val (16 + n) then bit val n else bit old n)"
  by (auto simp add: reg_store_def Let_def bit_simps dest: bit_imp_le_length)

lemma bit_property_val:
  assumes "unat (bitend r) < 16" and "fits r (if en then enable r else disable r)"
  shows "bit (property_val r en) n \<longleftrightarrow>
    (if n < 16
     then unat (bitstart r) \<le> n \<and> bit (if en then enable r else disable r) (n - unat (bitstart r))
     else in_field r (n - 16) \<and> n < 32)"
  using assms fits_bit[of "if en then enable r else disable r" "field_width r" "n - unat (bitstart r)"]
  by (auto simp add: property_val_def bit_simps bit_GENMASK fits_def field_width_def in_field_def
      split: if_splits)

lemma regs_property_enable:
  "regs (property_enable base r en s) a =
     (if a = reg_addr base r then reg_store (regs s a) (property_val r en) else regs s a)"
  by (simp add: property_enable_def writel_def Let_def property_val_def BIT_WRITEABLE_SHIFT_def)

lemma bus_property_enable:
  "bus (property_enable base r en s) = bus s @ [Writel (reg_addr base r) (property_val r en)]"
  by (simp add: property_enable_def writel_def Let_def property_val_def BIT_WRITEABLE_SHIFT_def)

lemma console_property_enable: "console (property_enable base r en s) = console s"
  by (simp add: property_enable_def writel_def Let_def)

lemma bit_stored:
  assumes "unat (bitend r) < 16" and "fits r (if en then enable r else disable r)"
  shows "bit (reg_store old (property_val r en)) n \<longleftrightarrow>
     (if in_field r n then bit (if en then enable r else disable r) (n - unat (bitstart r))
      else bit old n)"
  using assms
  by (auto simp add: bit_reg_store bit_property_val in_field_def)

lemma field_get_stored:
  assumes "unat (bitend r) < 16" and "fits r (if en then enable r else disable r)"
  shows "field_get r (reg_store old (property_val r en)) = (if en then enable r else disable r)"
proof (rule bit_eqI)
  fix n
  let ?v = "if en then enable r else disable r"
  show "bit (field_get r (reg_store old (property_val r en))) n \<longleftrightarrow> bit ?v n"
  proof (cases "n < field_width r")
    case True
    then show ?thesis
      using assms
      by (auto simp add: field_get_def bit_simps bit_GENMASK bit_stored in_field_def field_width_def
          dest: bit_imp_le_length)
  next
    case False
    then have "\<not> bit ?v n"
      using assms(2) fits_bit[of ?v "field_width r" n] by (simp add: fits_def)
    with False show ?thesis
      by (auto simp add: field_get_def bit_simps bit_GENMASK field_width_def)
  qed
qed

lemma fst_property_enabled:
  "fst (property_enabled base r s) \<longleftrightarrow> field_get r (regs s (reg_addr base r)) \<noteq> disable r"
  by (simp add: property_enabled_def readl_def Let_def field_get_def)

lemmas table_defs = rk3399_usb2phy_cfgs_def rk3568_phy_cfgs_def rk3588_phy_cfgs_def sentinel_def
  zero_port_cfg_def zero_reg_def usb2phy_reg_of_def ports_of_def

lemmas field_eval = bitfield_inv_def fits_def field_width_def in_field_def field_get_def
  property_val_def reg_store_def GENMASK_def hw_all_def reg_addr_def Let_def
  mask_eq_exp_minus_1 push_bit_eq_mult drop_bit_eq_div

section \<open>Write, then read\<close>

text \<open>
  C1, as the specification states it: for every field that satisfies the invariant and has
  two different encodings, writing \<open>en\<close> and then reading gives \<open>en\<close>. The source truncates
  \<^verbatim>\<open>mask << 16\<close> to 32 bits, so a field above bit 15 gets no write-enable bits. The field
  \<^verbatim>\<open>utmi_ls = { 0xe2ac, 22, 21, 0, 1 }\<close> of the RK3399 host port satisfies the invariant;
  on a register holding 0, writing \<open>True\<close> stores \<^verbatim>\<open>0x200000\<close>, whose upper half enables
  bit 5 only, and the read gives \<open>False\<close>.
\<close>

theorem property_enable_then_enabled_high_field:
  "bitfield_inv (utmi_ls (port_cfgs (rk3399_usb2phy_cfgs ! 0) USB2PHY_PORT_HOST)) \<and>
   enable (utmi_ls (port_cfgs (rk3399_usb2phy_cfgs ! 0) USB2PHY_PORT_HOST))
     \<noteq> disable (utmi_ls (port_cfgs (rk3399_usb2phy_cfgs ! 0) USB2PHY_PORT_HOST)) \<and>
   bus (property_enable 0 (utmi_ls (port_cfgs (rk3399_usb2phy_cfgs ! 0) USB2PHY_PORT_HOST)) True
        (hw_all 0)) = [Writel 0xe2ac 0x200000] \<and>
   fst (property_enabled 0 (utmi_ls (port_cfgs (rk3399_usb2phy_cfgs ! 0) USB2PHY_PORT_HOST))
     (property_enable 0 (utmi_ls (port_cfgs (rk3399_usb2phy_cfgs ! 0) USB2PHY_PORT_HOST)) True
        (hw_all 0))) = False"
  by (simp add: table_defs field_eval fst_property_enabled regs_property_enable
      bus_property_enable)

text \<open>
  C1, amended: for every field that satisfies the invariant, ends at bit 15 or below and
  has two different encodings, \<^verbatim>\<open>property_enable\<close> of \<open>en\<close> followed by
  \<^verbatim>\<open>property_enabled\<close> on the same register block gives \<open>en\<close>.
\<close>

theorem property_enable_then_enabled:
  assumes "bitfield_inv r" and "unat (bitend r) < 16" and "enable r \<noteq> disable r"
  shows "fst (property_enabled base r (property_enable base r en s)) = en"
  using assms
  by (simp add: fst_property_enabled regs_property_enable field_get_stored bitfield_inv_def)

theorem property_enable_then_enabled_witness:
  "bitfield_inv (phy_sus (port_cfgs (rk3568_phy_cfgs ! 0) USB2PHY_PORT_OTG)) \<and>
   unat (bitend (phy_sus (port_cfgs (rk3568_phy_cfgs ! 0) USB2PHY_PORT_OTG))) < 16 \<and>
   enable (phy_sus (port_cfgs (rk3568_phy_cfgs ! 0) USB2PHY_PORT_OTG))
     \<noteq> disable (phy_sus (port_cfgs (rk3568_phy_cfgs ! 0) USB2PHY_PORT_OTG)) \<and>
   fst (property_enabled 0 (phy_sus (port_cfgs (rk3568_phy_cfgs ! 0) USB2PHY_PORT_OTG))
     (property_enable 0 (phy_sus (port_cfgs (rk3568_phy_cfgs ! 0) USB2PHY_PORT_OTG)) True
        (hw_all 0))) = True"
proof -
  have inv: "bitfield_inv (phy_sus (port_cfgs (rk3568_phy_cfgs ! 0) USB2PHY_PORT_OTG))"
    by (simp add: table_defs field_eval)
  have low: "unat (bitend (phy_sus (port_cfgs (rk3568_phy_cfgs ! 0) USB2PHY_PORT_OTG))) < 16"
    by (simp add: table_defs)
  have neq: "enable (phy_sus (port_cfgs (rk3568_phy_cfgs ! 0) USB2PHY_PORT_OTG))
     \<noteq> disable (phy_sus (port_cfgs (rk3568_phy_cfgs ! 0) USB2PHY_PORT_OTG))"
    by (simp add: table_defs)
  show ?thesis
    using inv low neq property_enable_then_enabled [OF inv low neq, of 0 True "hw_all 0"]
    by simp
qed

section \<open>What a write leaves alone\<close>

text \<open>
  C2, as the specification states it: a write changes no bit of the register outside
  \<open>[bit_lo, bit_hi]\<close>, for every field. For the field \<^verbatim>\<open>utmi_ls = { 0xe2ac, 22, 21, 0, 1 }\<close>
  of the RK3399 host port and a register holding \<^verbatim>\<open>0x20\<close>, the write stores
  \<^verbatim>\<open>0x200000\<close>: the upper half enables bit 5, the lower half clears it, and the register
  holds 0 afterwards.
\<close>

theorem property_enable_frame_high_field:
  "bitfield_inv (utmi_ls (port_cfgs (rk3399_usb2phy_cfgs ! 0) USB2PHY_PORT_HOST)) \<and>
   \<not> in_field (utmi_ls (port_cfgs (rk3399_usb2phy_cfgs ! 0) USB2PHY_PORT_HOST)) 5 \<and>
   bit (regs (hw_all 0x20) 0xe2ac) 5 \<and>
   regs (property_enable 0 (utmi_ls (port_cfgs (rk3399_usb2phy_cfgs ! 0) USB2PHY_PORT_HOST))
       True (hw_all 0x20)) 0xe2ac = 0"
  by (simp add: table_defs field_eval regs_property_enable)

text \<open>
  C2, amended: for every field that satisfies the invariant and ends at bit 15 or below,
  every \<open>en\<close> and every prior content, \<^verbatim>\<open>property_enable\<close> changes no bit of the target
  register outside \<open>[bitstart, bitend]\<close>, and no other register.
\<close>

theorem property_enable_frame:
  assumes "bitfield_inv r" and "unat (bitend r) < 16"
  shows "(\<forall>n. \<not> in_field r n \<longrightarrow>
            bit (regs (property_enable base r en s) (reg_addr base r)) n
              = bit (regs s (reg_addr base r)) n) \<and>
         (\<forall>a. a \<noteq> reg_addr base r \<longrightarrow> regs (property_enable base r en s) a = regs s a)"
  using assms
  by (simp add: regs_property_enable bit_stored bitfield_inv_def)

theorem property_enable_frame_witness:
  "bitfield_inv (phy_sus (port_cfgs (rk3568_phy_cfgs ! 0) USB2PHY_PORT_OTG)) \<and>
   unat (bitend (phy_sus (port_cfgs (rk3568_phy_cfgs ! 0) USB2PHY_PORT_OTG))) < 16 \<and>
   \<not> in_field (phy_sus (port_cfgs (rk3568_phy_cfgs ! 0) USB2PHY_PORT_OTG)) 9 \<and>
   bit (regs (property_enable 0 (phy_sus (port_cfgs (rk3568_phy_cfgs ! 0) USB2PHY_PORT_OTG))
          False (hw_all 0xffff)) 0) 9"
proof -
  have inv: "bitfield_inv (phy_sus (port_cfgs (rk3568_phy_cfgs ! 0) USB2PHY_PORT_OTG))"
    by (simp add: table_defs field_eval)
  have low: "unat (bitend (phy_sus (port_cfgs (rk3568_phy_cfgs ! 0) USB2PHY_PORT_OTG))) < 16"
    by (simp add: table_defs)
  have out: "\<not> in_field (phy_sus (port_cfgs (rk3568_phy_cfgs ! 0) USB2PHY_PORT_OTG)) 9"
    by (simp add: table_defs in_field_def)
  have addr: "reg_addr 0 (phy_sus (port_cfgs (rk3568_phy_cfgs ! 0) USB2PHY_PORT_OTG)) = 0"
    by (simp add: table_defs reg_addr_def)
  have old: "bit (regs (hw_all 0xffff) 0) 9"
    by (simp add: hw_all_def)
  show ?thesis
    using inv low out old addr
      property_enable_frame [OF inv low, of 0 False "hw_all 0xffff"]
    by simp
qed

section \<open>What the operations do to the register block\<close>

lemma bus_property_enabled:
  "bus (snd (property_enabled base r s)) = bus s @ [Readl (reg_addr base r)]"
  by (simp add: property_enabled_def readl_def Let_def)

lemma regs_property_enabled: "regs (snd (property_enabled base r s)) = regs s"
  by (simp add: property_enabled_def readl_def Let_def)

lemma snd_power_on:
  "snd (rockchip_usb2phy_power_on priv p s) =
     property_enable (reg_base priv) (phy_sus (us2phy_get_port priv p)) False s"
  by (simp add: rockchip_usb2phy_power_on_def Let_def)

lemma snd_power_off:
  "snd (rockchip_usb2phy_power_off priv p s) =
     property_enable (reg_base priv) (phy_sus (us2phy_get_port priv p)) True s"
  by (simp add: rockchip_usb2phy_power_off_def Let_def)

lemma init_fail:
  "ret \<noteq> 0 \<Longrightarrow> ret \<noteq> - ENOSYS \<Longrightarrow>
   rockchip_usb2phy_init ret priv p s = (ret, dev_err ''failed to enable phyclk'' s)"
  by (simp add: rockchip_usb2phy_init_def Let_def)

lemma init_ok:
  "ret = 0 \<or> ret = - ENOSYS \<Longrightarrow>
   rockchip_usb2phy_init ret priv p s =
     (0, property_enable (reg_base priv) (bvalid_det_en (us2phy_get_port priv p)) True
          (property_enable (reg_base priv) (bvalid_det_clr (us2phy_get_port priv p)) True s))"
  by (cases "phy_id p") (auto simp add: rockchip_usb2phy_init_def Let_def)

lemma snd_clk_enable:
  "snd (rockchip_usb2phy_clk_enable priv s) =
     (if fst (property_enabled (reg_base priv) (clkout_ctl (phy_cfg priv)) s)
      then snd (property_enabled (reg_base priv) (clkout_ctl (phy_cfg priv)) s)
      else property_enable (reg_base priv) (clkout_ctl (phy_cfg priv)) True
             (snd (property_enabled (reg_base priv) (clkout_ctl (phy_cfg priv)) s)))"
  by (simp add: rockchip_usb2phy_clk_enable_def split_beta)

lemma absent_zero_reg: "absent r \<longleftrightarrow> r = zero_reg"
  by (cases r) (auto simp add: absent_def zero_reg_def usb2phy_reg_of_def)

lemma property_val_zero_reg: "property_val zero_reg en = 0x10000"
  by (simp add: zero_reg_def usb2phy_reg_of_def field_eval)

lemma reg_addr_zero_reg: "reg_addr base zero_reg = base"
  by (simp add: zero_reg_def usb2phy_reg_of_def reg_addr_def)

section \<open>Absent fields\<close>

text \<open>
  C5, as the specification states it: the operations touch configured fields only. The
  entries of \<^verbatim>\<open>rk3588_phy_cfgs\<close> have no \<^verbatim>\<open>clkout_ctl\<close>;
  \<^verbatim>\<open>rockchip_usb2phy_clk_disable\<close> writes it all the same, as offset 0, bit 0: on the
  first entry it stores \<^verbatim>\<open>0x10000\<close> at the base of the block, where no configured field
  of that entry lies, and clears bit 0 of that register.
\<close>

theorem clk_disable_writes_absent_field:
  "absent (clkout_ctl (rk3588_phy_cfgs ! 0)) \<and>
   bus (snd (rockchip_usb2phy_clk_disable
          \<lparr>reg_base = 0, phyclk = 0, phy_cfg = rk3588_phy_cfgs ! 0\<rparr> (hw_all 1)))
     = [Writel 0 0x10000] \<and>
   regs (hw_all 1) 0 = 1 \<and>
   regs (snd (rockchip_usb2phy_clk_disable
          \<lparr>reg_base = 0, phyclk = 0, phy_cfg = rk3588_phy_cfgs ! 0\<rparr> (hw_all 1))) 0 = 0 \<and>
   \<not> configured_only \<lparr>reg_base = 0, phyclk = 0, phy_cfg = rk3588_phy_cfgs ! 0\<rparr>
     (bus (snd (rockchip_usb2phy_clk_disable
          \<lparr>reg_base = 0, phyclk = 0, phy_cfg = rk3588_phy_cfgs ! 0\<rparr> (hw_all 1))))"
  by (simp add: rockchip_usb2phy_clk_disable_def regs_property_enable bus_property_enable
      table_defs field_eval absent_def configured_only_def cfg_fields_def port_fields_def)

text \<open>
  C5, amended: no operation tests whether a field is configured. Each issues exactly the
  accesses of the fields the driver names for it: \<^verbatim>\<open>power_on\<close> and \<^verbatim>\<open>power_off\<close> one
  write of the port's \<^verbatim>\<open>phy_sus\<close>; \<^verbatim>\<open>init\<close> on the OTG port a write of the port's
  \<^verbatim>\<open>bvalid_det_clr\<close>, then one of its \<^verbatim>\<open>bvalid_det_en\<close>, and none when the clock fails;
  \<^verbatim>\<open>exit\<close> none; clock enable a read of \<^verbatim>\<open>clkout_ctl\<close>, then a write of it when it read
  as disabled; clock disable one write of \<^verbatim>\<open>clkout_ctl\<close>. A field among these that is
  absent is accessed all the same: the write stores \<^verbatim>\<open>0x10000\<close> at the base of the block.
  What \<^verbatim>\<open>init\<close> writes on the host port is left open here.
\<close>

theorem operations_access_their_fields:
  "bus (snd (rockchip_usb2phy_power_on priv p s)) =
     bus s @ [Writel (reg_addr (reg_base priv) (phy_sus (us2phy_get_port priv p)))
                (property_val (phy_sus (us2phy_get_port priv p)) False)] \<and>
   bus (snd (rockchip_usb2phy_power_off priv p s)) =
     bus s @ [Writel (reg_addr (reg_base priv) (phy_sus (us2phy_get_port priv p)))
                (property_val (phy_sus (us2phy_get_port priv p)) True)] \<and>
   (phy_id p = USB2PHY_PORT_OTG \<longrightarrow>
      bus (snd (rockchip_usb2phy_init ret priv p s)) =
        (if ret \<noteq> 0 \<and> ret \<noteq> - ENOSYS then bus s
         else bus s @
           [Writel (reg_addr (reg_base priv) (bvalid_det_clr (us2phy_get_port priv p)))
              (property_val (bvalid_det_clr (us2phy_get_port priv p)) True),
            Writel (reg_addr (reg_base priv) (bvalid_det_en (us2phy_get_port priv p)))
              (property_val (bvalid_det_en (us2phy_get_port priv p)) True)])) \<and>
   bus (snd (rockchip_usb2phy_exit ret priv p s)) = bus s \<and>
   bus (snd (rockchip_usb2phy_clk_enable priv s)) =
     bus s @ Readl (reg_addr (reg_base priv) (clkout_ctl (phy_cfg priv))) #
       (if field_get (clkout_ctl (phy_cfg priv))
             (regs s (reg_addr (reg_base priv) (clkout_ctl (phy_cfg priv))))
           = disable (clkout_ctl (phy_cfg priv))
        then [Writel (reg_addr (reg_base priv) (clkout_ctl (phy_cfg priv)))
                (property_val (clkout_ctl (phy_cfg priv)) True)]
        else []) \<and>
   bus (snd (rockchip_usb2phy_clk_disable priv s)) =
     bus s @ [Writel (reg_addr (reg_base priv) (clkout_ctl (phy_cfg priv)))
                (property_val (clkout_ctl (phy_cfg priv)) False)] \<and>
   (absent r \<longrightarrow> reg_addr (reg_base priv) r = reg_base priv \<and> property_val r en = 0x10000)"
proof (intro conjI)
  show "phy_id p = USB2PHY_PORT_OTG \<longrightarrow>
      bus (snd (rockchip_usb2phy_init ret priv p s)) =
        (if ret \<noteq> 0 \<and> ret \<noteq> - ENOSYS then bus s
         else bus s @
           [Writel (reg_addr (reg_base priv) (bvalid_det_clr (us2phy_get_port priv p)))
              (property_val (bvalid_det_clr (us2phy_get_port priv p)) True),
            Writel (reg_addr (reg_base priv) (bvalid_det_en (us2phy_get_port priv p)))
              (property_val (bvalid_det_en (us2phy_get_port priv p)) True)])"
  proof
    assume otg: "phy_id p = USB2PHY_PORT_OTG"
    show "bus (snd (rockchip_usb2phy_init ret priv p s)) =
        (if ret \<noteq> 0 \<and> ret \<noteq> - ENOSYS then bus s
         else bus s @
           [Writel (reg_addr (reg_base priv) (bvalid_det_clr (us2phy_get_port priv p)))
              (property_val (bvalid_det_clr (us2phy_get_port priv p)) True),
            Writel (reg_addr (reg_base priv) (bvalid_det_en (us2phy_get_port priv p)))
              (property_val (bvalid_det_en (us2phy_get_port priv p)) True)])"
      using otg
      by (simp add: rockchip_usb2phy_init_def Let_def dev_err_def bus_property_enable)
  qed
next
  show "bus (snd (rockchip_usb2phy_clk_enable priv s)) =
     bus s @ Readl (reg_addr (reg_base priv) (clkout_ctl (phy_cfg priv))) #
       (if field_get (clkout_ctl (phy_cfg priv))
             (regs s (reg_addr (reg_base priv) (clkout_ctl (phy_cfg priv))))
           = disable (clkout_ctl (phy_cfg priv))
        then [Writel (reg_addr (reg_base priv) (clkout_ctl (phy_cfg priv)))
                (property_val (clkout_ctl (phy_cfg priv)) True)]
        else [])"
    by (simp add: snd_clk_enable fst_property_enabled bus_property_enabled bus_property_enable)
next
  show "absent r \<longrightarrow> reg_addr (reg_base priv) r = reg_base priv \<and> property_val r en = 0x10000"
    by (simp add: absent_zero_reg property_val_zero_reg reg_addr_zero_reg)
qed (simp_all add: snd_power_on snd_power_off bus_property_enable rockchip_usb2phy_exit_def
    rockchip_usb2phy_clk_disable_def)

theorem operations_access_their_fields_witness:
  "absent (clkout_ctl (rk3588_phy_cfgs ! 2)) \<and>
   bus (snd (rockchip_usb2phy_clk_disable
          \<lparr>reg_base = 0xfd5d8000, phyclk = 0, phy_cfg = rk3588_phy_cfgs ! 2\<rparr> (hw_all 0)))
     = [Writel 0xfd5d8000 0x10000] \<and>
   bus (snd (rockchip_usb2phy_power_on
          \<lparr>reg_base = 0xfd5d8000, phyclk = 0, phy_cfg = rk3588_phy_cfgs ! 2\<rparr>
          \<lparr>phy_id = USB2PHY_PORT_HOST, dev_name = ''host-port''\<rparr> (hw_all 0)))
     = [Writel 0xfd5d8008 0x40000] \<and>
   bus (snd (rockchip_usb2phy_init 0
          \<lparr>reg_base = 0, phyclk = 0, phy_cfg = rk3568_phy_cfgs ! 0\<rparr>
          \<lparr>phy_id = USB2PHY_PORT_OTG, dev_name = ''otg-port''\<rparr> (hw_all 0)))
     = [Writel 0x88 0x40004, Writel 0x80 0x40004]"
proof -
  have a: "absent (clkout_ctl (rk3588_phy_cfgs ! 2))"
    by (simp add: table_defs absent_def)
  have v: "property_val (phy_sus (port_cfgs (rk3588_phy_cfgs ! 2) USB2PHY_PORT_HOST)) False
      = 0x40000"
    by (simp add: table_defs field_eval)
  have r: "reg_addr 0xfd5d8000 (phy_sus (port_cfgs (rk3588_phy_cfgs ! 2) USB2PHY_PORT_HOST))
      = 0xfd5d8008"
    by (simp add: table_defs reg_addr_def)
  have c: "property_val (bvalid_det_clr (port_cfgs (rk3568_phy_cfgs ! 0) USB2PHY_PORT_OTG)) True
        = 0x40004 \<and>
      reg_addr 0 (bvalid_det_clr (port_cfgs (rk3568_phy_cfgs ! 0) USB2PHY_PORT_OTG)) = 0x88"
    by (simp add: table_defs field_eval)
  have d: "property_val (bvalid_det_en (port_cfgs (rk3568_phy_cfgs ! 0) USB2PHY_PORT_OTG)) True
        = 0x40004 \<and>
      reg_addr 0 (bvalid_det_en (port_cfgs (rk3568_phy_cfgs ! 0) USB2PHY_PORT_OTG)) = 0x80"
    by (simp add: table_defs field_eval)
  show ?thesis
    using a v r c d
      operations_access_their_fields
        [of "\<lparr>reg_base = 0xfd5d8000, phyclk = 0, phy_cfg = rk3588_phy_cfgs ! 2\<rparr>"
            "\<lparr>phy_id = USB2PHY_PORT_HOST, dev_name = ''host-port''\<rparr>" "hw_all 0" 0
            "clkout_ctl (rk3588_phy_cfgs ! 2)" False]
      operations_access_their_fields
        [of "\<lparr>reg_base = 0, phyclk = 0, phy_cfg = rk3568_phy_cfgs ! 0\<rparr>"
            "\<lparr>phy_id = USB2PHY_PORT_OTG, dev_name = ''otg-port''\<rparr>" "hw_all 0" 0
            zero_reg False]
    by (simp add: us2phy_get_port_def hw_all_def)
qed

section \<open>Init and the clock\<close>

text \<open>
  C6: \<^verbatim>\<open>rockchip_usb2phy_init\<close> returns an error exactly when \<^verbatim>\<open>clk_enable\<close> returned
  one other than \<^verbatim>\<open>-ENOSYS\<close>; it then returns that error and has accessed no register.
  With \<^verbatim>\<open>-ENOSYS\<close> it does what it does with 0: it returns 0 after the two
  detect-register writes.
\<close>

theorem init_fails_iff_clk_error:
  "(fst (rockchip_usb2phy_init ret priv p s) \<noteq> 0 \<longleftrightarrow> ret \<noteq> 0 \<and> ret \<noteq> - ENOSYS) \<and>
   (ret \<noteq> 0 \<and> ret \<noteq> - ENOSYS \<longrightarrow>
      fst (rockchip_usb2phy_init ret priv p s) = ret \<and>
      regs (snd (rockchip_usb2phy_init ret priv p s)) = regs s \<and>
      bus (snd (rockchip_usb2phy_init ret priv p s)) = bus s) \<and>
   (ret = - ENOSYS \<longrightarrow>
      rockchip_usb2phy_init ret priv p s = rockchip_usb2phy_init 0 priv p s \<and>
      bus (snd (rockchip_usb2phy_init ret priv p s)) =
        bus s @ [Writel (reg_addr (reg_base priv) (bvalid_det_clr (us2phy_get_port priv p)))
                   (property_val (bvalid_det_clr (us2phy_get_port priv p)) True),
                 Writel (reg_addr (reg_base priv) (bvalid_det_en (us2phy_get_port priv p)))
                   (property_val (bvalid_det_en (us2phy_get_port priv p)) True)])"
proof (cases "ret \<noteq> 0 \<and> ret \<noteq> - ENOSYS")
  case True
  then show ?thesis
    by (simp add: init_fail dev_err_def)
next
  case False
  then have ok: "ret = 0 \<or> ret = - ENOSYS"
    by blast
  then show ?thesis
    by (auto simp add: init_ok bus_property_enable)
qed

theorem init_fails_iff_clk_error_witness:
  "fst (rockchip_usb2phy_init (- 5)
          \<lparr>reg_base = 0, phyclk = 0, phy_cfg = rk3399_usb2phy_cfgs ! 0\<rparr>
          \<lparr>phy_id = USB2PHY_PORT_OTG, dev_name = ''otg-port''\<rparr> (hw_all 0)) = - 5 \<and>
   bus (snd (rockchip_usb2phy_init (- 5)
          \<lparr>reg_base = 0, phyclk = 0, phy_cfg = rk3399_usb2phy_cfgs ! 0\<rparr>
          \<lparr>phy_id = USB2PHY_PORT_OTG, dev_name = ''otg-port''\<rparr> (hw_all 0))) = [] \<and>
   fst (rockchip_usb2phy_init (- ENOSYS)
          \<lparr>reg_base = 0, phyclk = 0, phy_cfg = rk3399_usb2phy_cfgs ! 0\<rparr>
          \<lparr>phy_id = USB2PHY_PORT_OTG, dev_name = ''otg-port''\<rparr> (hw_all 0)) = 0 \<and>
   bus (snd (rockchip_usb2phy_init (- ENOSYS)
          \<lparr>reg_base = 0, phyclk = 0, phy_cfg = rk3399_usb2phy_cfgs ! 0\<rparr>
          \<lparr>phy_id = USB2PHY_PORT_OTG, dev_name = ''otg-port''\<rparr> (hw_all 0)))
     = [Writel 0xe3d0 0x80008, Writel 0xe3c0 0x80008]"
proof -
  have e: "(- 5 :: int) \<noteq> 0 \<and> (- 5 :: int) \<noteq> - ENOSYS"
    by (simp add: ENOSYS_def)
  have c: "property_val (bvalid_det_clr (port_cfgs (rk3399_usb2phy_cfgs ! 0) USB2PHY_PORT_OTG)) True
        = 0x80008 \<and>
      reg_addr 0 (bvalid_det_clr (port_cfgs (rk3399_usb2phy_cfgs ! 0) USB2PHY_PORT_OTG)) = 0xe3d0"
    by (simp add: table_defs field_eval)
  have d: "property_val (bvalid_det_en (port_cfgs (rk3399_usb2phy_cfgs ! 0) USB2PHY_PORT_OTG)) True
        = 0x80008 \<and>
      reg_addr 0 (bvalid_det_en (port_cfgs (rk3399_usb2phy_cfgs ! 0) USB2PHY_PORT_OTG)) = 0xe3c0"
    by (simp add: table_defs field_eval)
  note fail = init_fails_iff_clk_error
        [of "- 5" "\<lparr>reg_base = 0, phyclk = 0, phy_cfg = rk3399_usb2phy_cfgs ! 0\<rparr>"
            "\<lparr>phy_id = USB2PHY_PORT_OTG, dev_name = ''otg-port''\<rparr>" "hw_all 0"]
  note nosys = init_fails_iff_clk_error
        [of "- ENOSYS" "\<lparr>reg_base = 0, phyclk = 0, phy_cfg = rk3399_usb2phy_cfgs ! 0\<rparr>"
            "\<lparr>phy_id = USB2PHY_PORT_OTG, dev_name = ''otg-port''\<rparr>" "hw_all 0"]
  have f1: "fst (rockchip_usb2phy_init (- 5)
          \<lparr>reg_base = 0, phyclk = 0, phy_cfg = rk3399_usb2phy_cfgs ! 0\<rparr>
          \<lparr>phy_id = USB2PHY_PORT_OTG, dev_name = ''otg-port''\<rparr> (hw_all 0)) = - 5"
    using fail e by blast
  have f2: "bus (snd (rockchip_usb2phy_init (- 5)
          \<lparr>reg_base = 0, phyclk = 0, phy_cfg = rk3399_usb2phy_cfgs ! 0\<rparr>
          \<lparr>phy_id = USB2PHY_PORT_OTG, dev_name = ''otg-port''\<rparr> (hw_all 0))) = bus (hw_all 0)"
    using fail e by blast
  have n1: "fst (rockchip_usb2phy_init (- ENOSYS)
          \<lparr>reg_base = 0, phyclk = 0, phy_cfg = rk3399_usb2phy_cfgs ! 0\<rparr>
          \<lparr>phy_id = USB2PHY_PORT_OTG, dev_name = ''otg-port''\<rparr> (hw_all 0)) = 0"
    using nosys by blast
  have n2: "bus (snd (rockchip_usb2phy_init (- ENOSYS)
          \<lparr>reg_base = 0, phyclk = 0, phy_cfg = rk3399_usb2phy_cfgs ! 0\<rparr>
          \<lparr>phy_id = USB2PHY_PORT_OTG, dev_name = ''otg-port''\<rparr> (hw_all 0))) =
      bus (hw_all 0) @
        [Writel (reg_addr (reg_base \<lparr>reg_base = 0, phyclk = 0, phy_cfg = rk3399_usb2phy_cfgs ! 0\<rparr>)
             (bvalid_det_clr (us2phy_get_port \<lparr>reg_base = 0, phyclk = 0, phy_cfg = rk3399_usb2phy_cfgs ! 0\<rparr>
                \<lparr>phy_id = USB2PHY_PORT_OTG, dev_name = ''otg-port''\<rparr>)))
           (property_val (bvalid_det_clr (us2phy_get_port \<lparr>reg_base = 0, phyclk = 0, phy_cfg = rk3399_usb2phy_cfgs ! 0\<rparr>
                \<lparr>phy_id = USB2PHY_PORT_OTG, dev_name = ''otg-port''\<rparr>)) True),
         Writel (reg_addr (reg_base \<lparr>reg_base = 0, phyclk = 0, phy_cfg = rk3399_usb2phy_cfgs ! 0\<rparr>)
             (bvalid_det_en (us2phy_get_port \<lparr>reg_base = 0, phyclk = 0, phy_cfg = rk3399_usb2phy_cfgs ! 0\<rparr>
                \<lparr>phy_id = USB2PHY_PORT_OTG, dev_name = ''otg-port''\<rparr>)))
           (property_val (bvalid_det_en (us2phy_get_port \<lparr>reg_base = 0, phyclk = 0, phy_cfg = rk3399_usb2phy_cfgs ! 0\<rparr>
                \<lparr>phy_id = USB2PHY_PORT_OTG, dev_name = ''otg-port''\<rparr>)) True)]"
    using nosys by blast
  show ?thesis
    using f1 f2 n1 n2 c d by (simp add: hw_all_def us2phy_get_port_def)
qed

section \<open>Port names\<close>

lemma lower_host: "map tolower ''host-port'' = ''host-port''"
  by (simp add: tolower_def)

lemma lower_otg: "map tolower ''otg-port'' = ''otg-port''"
  by (simp add: tolower_def)

lemma lower_HOST: "map tolower ''HOST-PORT'' = ''host-port''"
  by code_simp

lemma lower_Otg: "map tolower ''Otg-Port'' = ''otg-port''"
  by code_simp

lemma strcasecmp_0_iff: "strcasecmp s1 s2 = 0 \<longleftrightarrow> map tolower s1 = map tolower s2"
proof (induction s1 s2 rule: strcasecmp.induct)
  case (4 c1 s1 c2 s2)
  then show ?case
    by (cases "tolower c1 = tolower c2") simp_all
qed simp_all

text \<open>
  C7, as the specification states it: a name that is neither port name leaves the port
  kind at its zero value, \<^verbatim>\<open>USB2PHY_PORT_OTG\<close>. The source assigns nothing in that
  branch: a phy that comes in with \<^verbatim>\<open>USB2PHY_PORT_HOST\<close> and the name \<^verbatim>\<open>weird\<close> goes out
  with \<^verbatim>\<open>USB2PHY_PORT_HOST\<close>.
\<close>

theorem of_xlate_keeps_port_id:
  "fst (rockchip_usb2phy_of_xlate
          \<lparr>phy_id = USB2PHY_PORT_HOST, dev_name = ''weird''\<rparr> (hw_all 0)) = 0 \<and>
   phy_id (fst (snd (rockchip_usb2phy_of_xlate
          \<lparr>phy_id = USB2PHY_PORT_HOST, dev_name = ''weird''\<rparr> (hw_all 0))))
     = USB2PHY_PORT_HOST \<and>
   phy_id (fst (snd (rockchip_usb2phy_of_xlate
          \<lparr>phy_id = USB2PHY_PORT_HOST, dev_name = ''weird''\<rparr> (hw_all 0))))
     \<noteq> USB2PHY_PORT_OTG \<and>
   console (snd (snd (rockchip_usb2phy_of_xlate
          \<lparr>phy_id = USB2PHY_PORT_HOST, dev_name = ''weird''\<rparr> (hw_all 0))))
     = [''improper weird device'']"
  by (simp add: rockchip_usb2phy_of_xlate_def Let_def tolower_def dev_err_def hw_all_def)

text \<open>
  C7, amended: every case variant of \<^verbatim>\<open>host-port\<close> gives \<^verbatim>\<open>USB2PHY_PORT_HOST\<close> and every
  case variant of \<^verbatim>\<open>otg-port\<close> gives \<^verbatim>\<open>USB2PHY_PORT_OTG\<close>; for every other name an
  error line is printed, the port kind is left as it came in, and the call still
  returns 0.
\<close>

theorem of_xlate_names:
  "(map tolower (dev_name p) = ''host-port'' \<longrightarrow>
      rockchip_usb2phy_of_xlate p s = (0, p\<lparr>phy_id := USB2PHY_PORT_HOST\<rparr>, s)) \<and>
   (map tolower (dev_name p) = ''otg-port'' \<longrightarrow>
      rockchip_usb2phy_of_xlate p s = (0, p\<lparr>phy_id := USB2PHY_PORT_OTG\<rparr>, s)) \<and>
   (map tolower (dev_name p) \<noteq> ''host-port'' \<and> map tolower (dev_name p) \<noteq> ''otg-port'' \<longrightarrow>
      rockchip_usb2phy_of_xlate p s =
        (0, p, dev_err (''improper '' @ dev_name p @ '' device'') s))"
proof -
  have h: "strcasecmp (dev_name p) ''host-port'' = 0
      \<longleftrightarrow> map tolower (dev_name p) = ''host-port''"
    by (simp only: strcasecmp_0_iff lower_host)
  have o: "strcasecmp (dev_name p) ''otg-port'' = 0
      \<longleftrightarrow> map tolower (dev_name p) = ''otg-port''"
    by (simp only: strcasecmp_0_iff lower_otg)
  have ne: "''host-port'' \<noteq> ''otg-port''"
    by simp
  show ?thesis
    unfolding rockchip_usb2phy_of_xlate_def Let_def h o
    using ne by (cases "map tolower (dev_name p) = ''host-port''") simp_all
qed

theorem of_xlate_names_witness:
  "rockchip_usb2phy_of_xlate \<lparr>phy_id = USB2PHY_PORT_OTG, dev_name = ''HOST-PORT''\<rparr> (hw_all 0)
     = (0, \<lparr>phy_id = USB2PHY_PORT_HOST, dev_name = ''HOST-PORT''\<rparr>, hw_all 0) \<and>
   rockchip_usb2phy_of_xlate \<lparr>phy_id = USB2PHY_PORT_HOST, dev_name = ''Otg-Port''\<rparr> (hw_all 0)
     = (0, \<lparr>phy_id = USB2PHY_PORT_OTG, dev_name = ''Otg-Port''\<rparr>, hw_all 0)"
  using
    of_xlate_names [of "\<lparr>phy_id = USB2PHY_PORT_OTG, dev_name = ''HOST-PORT''\<rparr>" "hw_all 0"]
    of_xlate_names [of "\<lparr>phy_id = USB2PHY_PORT_HOST, dev_name = ''Otg-Port''\<rparr>" "hw_all 0"]
    lower_HOST lower_Otg
  by simp

section \<open>Power on, then off\<close>

text \<open>
  C8, as the specification states it: after \<^verbatim>\<open>power_on\<close> and \<^verbatim>\<open>power_off\<close> the suspend
  field holds its \<^verbatim>\<open>disable\<close> encoding. \<^verbatim>\<open>power_off\<close> writes the field with \<^verbatim>\<open>en = true\<close>:
  on the OTG port of the first RK3399 entry, \<^verbatim>\<open>phy_sus = { 0xe454, 1, 0, 2, 1 }\<close>, the
  field holds 1, its \<^verbatim>\<open>enable\<close> encoding, and not 2.
\<close>

theorem power_on_off_rk3399_otg:
  "disable (phy_sus (port_cfgs (rk3399_usb2phy_cfgs ! 0) USB2PHY_PORT_OTG)) = 2 \<and>
   enable (phy_sus (port_cfgs (rk3399_usb2phy_cfgs ! 0) USB2PHY_PORT_OTG)) = 1 \<and>
   field_get (phy_sus (port_cfgs (rk3399_usb2phy_cfgs ! 0) USB2PHY_PORT_OTG))
     (regs (snd (rockchip_usb2phy_power_off
                   \<lparr>reg_base = 0, phyclk = 0, phy_cfg = rk3399_usb2phy_cfgs ! 0\<rparr>
                   \<lparr>phy_id = USB2PHY_PORT_OTG, dev_name = ''otg-port''\<rparr>
              (snd (rockchip_usb2phy_power_on
                   \<lparr>reg_base = 0, phyclk = 0, phy_cfg = rk3399_usb2phy_cfgs ! 0\<rparr>
                   \<lparr>phy_id = USB2PHY_PORT_OTG, dev_name = ''otg-port''\<rparr> (hw_all 0)))))
        0xe454) = 1"
  by (simp add: snd_power_on snd_power_off us2phy_get_port_def regs_property_enable table_defs
      field_eval)

text \<open>
  C8, amended: for every port whose suspend field ends at bit 15 or below and whose
  \<^verbatim>\<open>enable\<close> encoding fits the field, \<^verbatim>\<open>power_on\<close> followed by \<^verbatim>\<open>power_off\<close> leaves the
  suspend field holding its \<^verbatim>\<open>enable\<close> encoding, whatever the register held before.
\<close>

theorem power_on_off_suspend:
  assumes "unat (bitend (phy_sus (us2phy_get_port priv p))) < 16"
    and "fits (phy_sus (us2phy_get_port priv p)) (enable (phy_sus (us2phy_get_port priv p)))"
  shows "field_get (phy_sus (us2phy_get_port priv p))
           (regs (snd (rockchip_usb2phy_power_off priv p
                    (snd (rockchip_usb2phy_power_on priv p s))))
              (reg_addr (reg_base priv) (phy_sus (us2phy_get_port priv p))))
         = enable (phy_sus (us2phy_get_port priv p))"
  using assms field_get_stored [of "phy_sus (us2phy_get_port priv p)" True]
  by (simp add: snd_power_on snd_power_off regs_property_enable)

theorem power_on_off_suspend_witness:
  "unat (bitend (phy_sus (port_cfgs (rk3568_phy_cfgs ! 0) USB2PHY_PORT_OTG))) < 16 \<and>
   fits (phy_sus (port_cfgs (rk3568_phy_cfgs ! 0) USB2PHY_PORT_OTG))
     (enable (phy_sus (port_cfgs (rk3568_phy_cfgs ! 0) USB2PHY_PORT_OTG))) \<and>
   field_get (phy_sus (port_cfgs (rk3568_phy_cfgs ! 0) USB2PHY_PORT_OTG))
     (regs (snd (rockchip_usb2phy_power_off
                   \<lparr>reg_base = 0, phyclk = 0, phy_cfg = rk3568_phy_cfgs ! 0\<rparr>
                   \<lparr>phy_id = USB2PHY_PORT_OTG, dev_name = ''otg-port''\<rparr>
              (snd (rockchip_usb2phy_power_on
                   \<lparr>reg_base = 0, phyclk = 0, phy_cfg = rk3568_phy_cfgs ! 0\<rparr>
                   \<lparr>phy_id = USB2PHY_PORT_OTG, dev_name = ''otg-port''\<rparr> (hw_all 0)))))
        0) = 0x1d1"
proof -
  have port: "us2phy_get_port \<lparr>reg_base = 0, phyclk = 0, phy_cfg = rk3568_phy_cfgs ! 0\<rparr>
      \<lparr>phy_id = USB2PHY_PORT_OTG, dev_name = ''otg-port''\<rparr>
      = port_cfgs (rk3568_phy_cfgs ! 0) USB2PHY_PORT_OTG"
    by (simp add: us2phy_get_port_def)
  have low: "unat (bitend (phy_sus (port_cfgs (rk3568_phy_cfgs ! 0) USB2PHY_PORT_OTG))) < 16"
    by (simp add: table_defs)
  have fit: "fits (phy_sus (port_cfgs (rk3568_phy_cfgs ! 0) USB2PHY_PORT_OTG))
      (enable (phy_sus (port_cfgs (rk3568_phy_cfgs ! 0) USB2PHY_PORT_OTG)))"
    by (simp add: table_defs fits_def field_width_def)
  have vals: "enable (phy_sus (port_cfgs (rk3568_phy_cfgs ! 0) USB2PHY_PORT_OTG)) = 0x1d1 \<and>
      reg_addr 0 (phy_sus (port_cfgs (rk3568_phy_cfgs ! 0) USB2PHY_PORT_OTG)) = 0"
    by (simp add: table_defs reg_addr_def)
  show ?thesis
    using low fit vals
      power_on_off_suspend
        [of "\<lparr>reg_base = 0, phyclk = 0, phy_cfg = rk3568_phy_cfgs ! 0\<rparr>"
            "\<lparr>phy_id = USB2PHY_PORT_OTG, dev_name = ''otg-port''\<rparr>" "hw_all 0"]
    by (simp add: port)
qed

section \<open>The operations' status\<close>

text \<open>
  C10: \<^verbatim>\<open>power_on\<close>, \<^verbatim>\<open>power_off\<close>, \<^verbatim>\<open>exit\<close> and \<^verbatim>\<open>of_xlate\<close> return 0 for every port,
  every register state, every status of \<^verbatim>\<open>clk_disable\<close> and every name.
\<close>

theorem port_operations_return_0:
  "fst (rockchip_usb2phy_power_on priv p s) = 0 \<and>
   fst (rockchip_usb2phy_power_off priv p s) = 0 \<and>
   fst (rockchip_usb2phy_exit clk_disable_ret priv p s) = 0 \<and>
   fst (rockchip_usb2phy_of_xlate p s) = 0"
  by (simp add: rockchip_usb2phy_power_on_def rockchip_usb2phy_power_off_def
      rockchip_usb2phy_exit_def rockchip_usb2phy_of_xlate_def Let_def)

section \<open>The scan of the table\<close>

lemma first_match_Some:
  "first_match es r = Some i \<Longrightarrow>
     i < length es \<and> reg (es ! i) = r \<and> (\<forall>j < i. reg (es ! j) \<noteq> r)"
proof (induction es arbitrary: i)
  case Nil
  then show ?case by simp
next
  case (Cons c cs)
  show ?case
  proof (cases "reg c = r")
    case True
    with Cons.prems show ?thesis by simp
  next
    case False
    with Cons.prems obtain i' where i': "first_match cs r = Some i'" "i = Suc i'"
      by auto
    from Cons.IH [OF i'(1)] False i'(2) show ?thesis
      by (auto simp add: nth_Cons' less_Suc_eq_0_disj)
  qed
qed

lemma first_match_None: "first_match es r = None \<longleftrightarrow> (\<forall>c \<in> set es. reg c \<noteq> r)"
  by (induction es) auto

text \<open>
  The scan from position \<open>k\<close> of an array that holds \<open>entries\<close>, then an entry \<open>z\<close> with
  \<open>reg z = 0\<close>: no entry after \<open>k\<close> has \<open>reg\<close> 0, so the loop runs up to \<open>z\<close>.
\<close>

lemma find_phy_cfg_scan:
  assumes "k < length entries"
    and "\<forall>j. k < j \<and> j < length entries \<longrightarrow> reg (entries ! j) \<noteq> 0"
    and "reg z = 0"
  shows "find_phy_cfg (entries @ z # rest) r k =
           (case first_match (drop k entries) r of
              Some i \<Rightarrow> Found (k + i)
            | None \<Rightarrow> NotFound)"
  using assms
proof (induction "length entries - k" arbitrary: k)
  case 0
  then show ?case by simp
next
  case (Suc n)
  have dk: "drop k entries = entries ! k # drop (Suc k) entries"
    using Suc.prems(1) by (simp add: Cons_nth_drop_Suc)
  have nthk: "(entries @ z # rest) ! k = entries ! k"
    using Suc.prems(1) by (simp add: nth_append)
  show ?case
  proof (cases "reg (entries ! k) = r")
    case True
    then show ?thesis
      using Suc.prems(1) by (subst find_phy_cfg.simps) (simp add: dk nthk)
  next
    case False
    show ?thesis
    proof (cases "Suc k < length entries")
      case True
      then have nz: "reg ((entries @ z # rest) ! Suc k) \<noteq> 0"
        using Suc.prems(2) by (simp add: nth_append)
      have "find_phy_cfg (entries @ z # rest) r (Suc k) =
           (case first_match (drop (Suc k) entries) r of
              Some i \<Rightarrow> Found (Suc k + i)
            | None \<Rightarrow> NotFound)"
        using Suc.hyps(2) True Suc.prems(2,3) by (intro Suc.hyps(1)) auto
      then show ?thesis
        using False nz True Suc.prems(1)
        by (subst find_phy_cfg.simps) (simp add: dk nthk split: option.splits)
    next
      case at_end: False
      then have last: "Suc k = length entries"
        using Suc.prems(1) by simp
      then have z: "(entries @ z # rest) ! Suc k = z"
        by (simp add: nth_append)
      have "drop (Suc k) entries = []"
        using last by simp
      then show ?thesis
        using False z last Suc.prems(1,3)
        by (subst find_phy_cfg.simps) (simp add: dk nthk)
    qed
  qed
qed

lemma find_phy_cfg_Found:
  "find_phy_cfg cfgs r k = Found i \<Longrightarrow>
     k \<le> i \<and> (\<forall>j. k < j \<and> j \<le> i \<longrightarrow> reg (cfgs ! j) \<noteq> 0)"
proof (induction cfgs r k rule: find_phy_cfg.induct)
  case (1 phy_cfgs r index)
  show ?case
  proof (cases "length phy_cfgs \<le> index \<or> reg (phy_cfgs ! index) = r
      \<or> length phy_cfgs \<le> Suc index \<or> reg (phy_cfgs ! Suc index) = 0")
    case True
    with "1.prems" show ?thesis
      by (subst (asm) find_phy_cfg.simps) (auto split: if_splits)
  next
    case False
    with "1.prems" have rec: "find_phy_cfg phy_cfgs r (Suc index) = Found i"
      by (subst (asm) find_phy_cfg.simps) (simp split: if_splits)
    from False have ih:
      "Suc index \<le> i \<and> (\<forall>j. Suc index < j \<and> j \<le> i \<longrightarrow> reg (phy_cfgs ! j) \<noteq> 0)"
      by (intro "1.IH" rec) auto
    have "reg (phy_cfgs ! j) \<noteq> 0" if "index < j \<and> j \<le> i" for j
    proof (cases "j = Suc index")
      case True
      with False show ?thesis by simp
    next
      case False
      with that have "Suc index < j \<and> j \<le> i" by arith
      with ih show ?thesis by blast
    qed
    with ih show ?thesis
      by simp
  qed
qed

lemma rk3399_split:
  "rk3399_usb2phy_cfgs = [rk3399_usb2phy_cfgs ! 0, rk3399_usb2phy_cfgs ! 1] @ sentinel # []"
  by (simp add: rk3399_usb2phy_cfgs_def)

text \<open>
  C3, as the specification states it: for every table, that is every sequence of entries
  followed by the sentinel, and every address, the lookup returns the first entry whose
  \<open>reg\<close> is the address. In a table whose second entry has \<open>reg = 0\<close> that entry is the
  first match of address 0, and the lookup stops before it and finds nothing.
\<close>

theorem find_phy_cfg_zero_entry_inside:
  "first_match [rk3399_usb2phy_cfgs ! 0, (rk3399_usb2phy_cfgs ! 1)\<lparr>reg := 0\<rparr>] 0 = Some 1 \<and>
   find_phy_cfg
     ([rk3399_usb2phy_cfgs ! 0, (rk3399_usb2phy_cfgs ! 1)\<lparr>reg := 0\<rparr>] @ [sentinel]) 0 0
     = NotFound"
  by (simp add: find_phy_cfg.simps table_defs)

text \<open>
  C3, amended: for every table with at least one entry in which no entry after the first
  has \<open>reg = 0\<close>, and every address, the lookup returns the first entry in table order
  whose \<open>reg\<close> is the address, and finds nothing if no entry matches; the probe then fails
  with \<^verbatim>\<open>-EINVAL\<close>, and otherwise goes on with that entry. The result is a function of
  the table and the address alone.
\<close>

theorem find_phy_cfg_first_match:
  assumes "entries \<noteq> []" and "\<forall>c \<in> set (tl entries). reg c \<noteq> 0" and "reg z = 0"
  shows "find_phy_cfg (entries @ z # rest) r 0 =
           (case first_match entries r of Some i \<Rightarrow> Found i | None \<Rightarrow> NotFound) \<and>
         (dev_get_driver_data dt = Some (entries @ z # rest) \<longrightarrow>
            fst (probe_find_cfg dt base r s) =
              (case first_match entries r of
                 None \<Rightarrow> Inl (Errno (- EINVAL))
               | Some i \<Rightarrow>
                   if fst (clk_get_by_name dt) \<noteq> 0 then Inl (Errno (fst (clk_get_by_name dt)))
                   else Inr \<lparr>reg_base = base, phyclk = snd (clk_get_by_name dt),
                             phy_cfg = entries ! i\<rparr>))"
proof -
  have "\<forall>j. 0 < j \<and> j < length entries \<longrightarrow> reg (entries ! j) \<noteq> 0"
  proof (intro allI impI)
    fix j assume j: "0 < j \<and> j < length entries"
    then have "entries ! j = tl entries ! (j - 1)"
      by (cases entries) (auto simp add: nth_Cons')
    moreover have "j - 1 < length (tl entries)"
      using j by (cases entries) auto
    ultimately have "entries ! j \<in> set (tl entries)"
      by (metis nth_mem)
    with assms(2) show "reg (entries ! j) \<noteq> 0"
      by blast
  qed
  with assms(1,3) have scan: "find_phy_cfg (entries @ z # rest) r 0 =
      (case first_match entries r of Some i \<Rightarrow> Found i | None \<Rightarrow> NotFound)"
    using find_phy_cfg_scan [of 0 entries z rest r] by (simp split: option.splits)
  have "fst (probe_find_cfg dt base r s) =
      (case first_match entries r of
         None \<Rightarrow> Inl (Errno (- EINVAL))
       | Some i \<Rightarrow>
           if fst (clk_get_by_name dt) \<noteq> 0 then Inl (Errno (fst (clk_get_by_name dt)))
           else Inr \<lparr>reg_base = base, phyclk = snd (clk_get_by_name dt),
                     phy_cfg = entries ! i\<rparr>)"
    if dd: "dev_get_driver_data dt = Some (entries @ z # rest)"
  proof (cases "first_match entries r")
    case None
    with scan dd show ?thesis
      by (simp add: probe_find_cfg_def)
  next
    case (Some i)
    then have "i < length entries"
      using first_match_Some by blast
    then have "(entries @ z # rest) ! i = entries ! i"
      by (simp add: nth_append)
    with Some scan dd show ?thesis
      by (simp add: probe_find_cfg_def split_beta)
  qed
  with scan show ?thesis
    by blast
qed

theorem find_phy_cfg_first_match_witness:
  "find_phy_cfg rk3399_usb2phy_cfgs 0xe460 0 = Found 1 \<and>
   find_phy_cfg rk3399_usb2phy_cfgs 0x1234 0 = NotFound"
proof -
  have ne: "[rk3399_usb2phy_cfgs ! 0, rk3399_usb2phy_cfgs ! 1] \<noteq> []"
    by simp
  have nz: "\<forall>c \<in> set (tl [rk3399_usb2phy_cfgs ! 0, rk3399_usb2phy_cfgs ! 1]). reg c \<noteq> 0"
    by (simp add: table_defs)
  have z: "reg sentinel = 0"
    by (simp add: sentinel_def)
  have m1: "first_match [rk3399_usb2phy_cfgs ! 0, rk3399_usb2phy_cfgs ! 1] 0xe460 = Some 1"
    by (simp add: table_defs)
  have m2: "first_match [rk3399_usb2phy_cfgs ! 0, rk3399_usb2phy_cfgs ! 1] 0x1234 = None"
    by (simp add: table_defs)
  have "find_phy_cfg ([rk3399_usb2phy_cfgs ! 0, rk3399_usb2phy_cfgs ! 1] @ sentinel # [])
          0xe460 0 = Found 1"
    using find_phy_cfg_first_match [OF ne nz z, of "[]" "0xe460"] m1 by simp
  moreover
  have "find_phy_cfg ([rk3399_usb2phy_cfgs ! 0, rk3399_usb2phy_cfgs ! 1] @ sentinel # [])
          0x1234 0 = NotFound"
    using find_phy_cfg_first_match [OF ne nz z, of "[]" "0x1234"] m2 by simp
  ultimately show ?thesis
    by (simp only: rk3399_split [symmetric])
qed

section \<open>Entries with \<open>reg = 0\<close>\<close>

text \<open>
  C4, as the specification states it: an entry with \<open>reg = 0\<close> is never returned, at
  whatever position, for every address looked up. The first entry of
  \<^verbatim>\<open>rk3588_phy_cfgs\<close> has \<^verbatim>\<open>.reg = 0x0000\<close>; the loop compares it before it tests for
  the sentinel, and the lookup of address 0 returns it.
\<close>

theorem find_phy_cfg_rk3588_first_entry:
  "reg (rk3588_phy_cfgs ! 0) = 0 \<and> find_phy_cfg rk3588_phy_cfgs 0 0 = Found 0"
  by (simp add: find_phy_cfg.simps table_defs)

text \<open>
  C4, amended: an entry with \<open>reg = 0\<close> at a position after the first is never returned,
  nor is any entry behind it: the scan stops there, for every address looked up. The
  first entry is compared before that test, and is returned whenever its \<open>reg\<close> is the
  address, 0 included.
\<close>

theorem find_phy_cfg_zero_entries:
  "(find_phy_cfg cfgs r 0 = Found i \<longrightarrow> (\<forall>j. 0 < j \<and> j \<le> i \<longrightarrow> reg (cfgs ! j) \<noteq> 0)) \<and>
   (cfgs \<noteq> [] \<and> reg (cfgs ! 0) = r \<longrightarrow> find_phy_cfg cfgs r 0 = Found 0)"
proof (intro conjI impI)
  assume "find_phy_cfg cfgs r 0 = Found i"
  then show "\<forall>j. 0 < j \<and> j \<le> i \<longrightarrow> reg (cfgs ! j) \<noteq> 0"
    using find_phy_cfg_Found [of cfgs r 0 i] by simp
next
  assume "cfgs \<noteq> [] \<and> reg (cfgs ! 0) = r"
  then show "find_phy_cfg cfgs r 0 = Found 0"
    by (subst find_phy_cfg.simps) simp
qed

theorem find_phy_cfg_zero_entries_witness:
  "find_phy_cfg rk3588_phy_cfgs 0xc000 0 = Found 3 \<and>
   reg (rk3588_phy_cfgs ! 1) \<noteq> 0 \<and> reg (rk3588_phy_cfgs ! 2) \<noteq> 0 \<and>
   reg (rk3588_phy_cfgs ! 3) \<noteq> 0 \<and>
   find_phy_cfg rk3568_phy_cfgs 0xfe8a0000 0 = Found 0"
proof -
  have f: "find_phy_cfg rk3588_phy_cfgs 0xc000 0 = Found 3"
    by (simp add: find_phy_cfg.simps table_defs)
  have z: "rk3568_phy_cfgs \<noteq> [] \<and> reg (rk3568_phy_cfgs ! 0) = 0xfe8a0000"
    by (simp add: table_defs)
  have "\<forall>j. 0 < j \<and> j \<le> 3 \<longrightarrow> reg (rk3588_phy_cfgs ! j) \<noteq> 0"
    using f find_phy_cfg_zero_entries [of rk3588_phy_cfgs "0xc000" 3] by blast
  then have "reg (rk3588_phy_cfgs ! 1) \<noteq> 0 \<and> reg (rk3588_phy_cfgs ! 2) \<noteq> 0 \<and>
      reg (rk3588_phy_cfgs ! 3) \<noteq> 0"
    by simp
  moreover have "find_phy_cfg rk3568_phy_cfgs 0xfe8a0000 0 = Found 0"
    using z find_phy_cfg_zero_entries [of rk3568_phy_cfgs "0xfe8a0000" 0] by blast
  ultimately show ?thesis
    using f by simp
qed

section \<open>Two address cells\<close>

lemma rk3568_split:
  "rk3568_phy_cfgs = [rk3568_phy_cfgs ! 0, rk3568_phy_cfgs ! 1] @ sentinel # []"
  by (simp add: rk3568_phy_cfgs_def)

lemma rk3588_entries: "take 4 rk3588_phy_cfgs =
    [rk3588_phy_cfgs ! 0, rk3588_phy_cfgs ! 1, rk3588_phy_cfgs ! 2, rk3588_phy_cfgs ! 3]"
  by (simp add: rk3588_phy_cfgs_def)

text \<open>
  The probe from the point where \<open>reg\<close> is set, on a table that holds at least one entry,
  no entry with \<open>reg = 0\<close> after the first, and then the sentinel: it goes on with the
  first entry whose \<open>reg\<close> is the address, and fails with \<^verbatim>\<open>-EINVAL\<close> if there is none.
\<close>

lemma probe_find_cfg_terminated:
  assumes "dev_get_driver_data dt = Some (entries @ z # rest)"
    and "entries \<noteq> []" and "\<forall>c \<in> set (tl entries). reg c \<noteq> 0" and "reg z = 0"
  shows "fst (probe_find_cfg dt base r s) =
      (case first_match entries r of
         None \<Rightarrow> Inl (Errno (- EINVAL))
       | Some i \<Rightarrow>
           if fst (clk_get_by_name dt) \<noteq> 0 then Inl (Errno (fst (clk_get_by_name dt)))
           else Inr \<lparr>reg_base = base, phyclk = snd (clk_get_by_name dt),
                     phy_cfg = entries ! i\<rparr>)"
proof -
  have nz: "reg (entries ! j) \<noteq> 0" if "0 < j \<and> j < length entries" for j
  proof -
    obtain c cs where e: "entries = c # cs"
      using assms(2) by (cases entries) auto
    with that have "entries ! j = cs ! (j - 1)" and "j - 1 < length cs"
      by (auto simp add: nth_Cons')
    then have "entries ! j \<in> set (tl entries)"
      using e by simp
    with assms(3) show ?thesis
      by blast
  qed
  have scan: "find_phy_cfg (entries @ z # rest) r 0 =
      (case first_match entries r of Some i \<Rightarrow> Found i | None \<Rightarrow> NotFound)"
    using assms(2,4) nz find_phy_cfg_scan [of 0 entries z rest r]
    by (simp split: option.splits)
  show ?thesis
  proof (cases "first_match entries r")
    case None
    with scan assms(1) show ?thesis
      by (simp add: probe_find_cfg_def)
  next
    case (Some i)
    then have "i < length entries"
      using first_match_Some by blast
    then have "(entries @ z # rest) ! i = entries ! i"
      by (simp add: nth_append)
    with Some scan assms(1) show ?thesis
      by (simp add: probe_find_cfg_def split_beta)
  qed
qed

text \<open>
  C9, as the specification states it: with two address cells and a low cell of 0 the
  resolution is retried with the high cell before failing, that is after the scan for the
  low cell has found nothing (\<open>resolve_retry\<close>). The source overwrites \<open>reg\<close> with the
  second cell before its only scan. On \<^verbatim>\<open>rk3588_phy_cfgs\<close>, whose first entry has
  \<^verbatim>\<open>.reg = 0x0000\<close>, with \<^verbatim>\<open>reg = <0x0 0x4000 0x0 0x10>\<close>, the first attempt of a retry
  finds entry 0; the probe chooses entry 1, the entry of \<^verbatim>\<open>0x4000\<close>.
\<close>

theorem probe_two_cells_no_retry:
  "ofnode_read_u32_index rk3588_two_cells 0 = (0, 0) \<and>
   ofnode_read_u32_index rk3588_two_cells 1 = (0, 0x4000) \<and>
   dev_read_addr_cells rk3588_two_cells = 2 \<and>
   dev_get_driver_data rk3588_two_cells = Some (take 4 rk3588_phy_cfgs @ [sentinel]) \<and>
   resolve_retry (take 4 rk3588_phy_cfgs) 2 0 (0, 0x4000) = Inr 0 \<and>
   fst (rockchip_usb2phy_probe rk3588_two_cells (hw_all 0)) =
     Inr \<lparr>reg_base = 0xfd5d4000, phyclk = 1, phy_cfg = rk3588_phy_cfgs ! 1\<rparr> \<and>
   reg (rk3588_phy_cfgs ! 0) = 0 \<and>
   reg (rk3588_phy_cfgs ! 1) = 0x4000"
proof -
  have f1: "find_phy_cfg rk3588_phy_cfgs 0x4000 0 = Found 1"
    by (simp add: find_phy_cfg.simps table_defs)
  have p: "fst (rockchip_usb2phy_probe rk3588_two_cells (hw_all 0)) =
     Inr \<lparr>reg_base = 0xfd5d4000, phyclk = 1, phy_cfg = rk3588_phy_cfgs ! 1\<rparr>"
    using f1
    by (simp add: rockchip_usb2phy_probe_def probe_find_cfg_def rk3588_two_cells_def
        read_cells_def)
  have r: "resolve_retry (take 4 rk3588_phy_cfgs) 2 0 (0, 0x4000) = Inr 0"
    by (simp add: resolve_retry_def rk3588_entries) (simp add: table_defs)
  have t: "dev_get_driver_data rk3588_two_cells = Some (take 4 rk3588_phy_cfgs @ [sentinel])"
    by (simp add: rk3588_two_cells_def rk3588_phy_cfgs_def)
  have c: "ofnode_read_u32_index rk3588_two_cells 0 = (0, 0) \<and>
      ofnode_read_u32_index rk3588_two_cells 1 = (0, 0x4000) \<and>
      dev_read_addr_cells rk3588_two_cells = 2"
    by (simp add: rk3588_two_cells_def read_cells_def)
  have e: "reg (rk3588_phy_cfgs ! 0) = 0 \<and> reg (rk3588_phy_cfgs ! 1) = 0x4000"
    by (simp add: table_defs)
  from c t r p e show ?thesis
    by blast
qed

text \<open>
  C9, amended: when the node has two address cells and the first cell of \<^verbatim>\<open>reg\<close> reads
  as 0, the probe makes its one lookup with the second cell in place of the first, and
  address 0 is not looked up. If the second cell cannot be read the probe fails with
  \<^verbatim>\<open>-EINVAL\<close>. Otherwise, on a table with at least one entry and no entry with
  \<open>reg = 0\<close> after the first, it goes on with the first entry whose \<open>reg\<close> is the second
  cell, and fails with \<^verbatim>\<open>-EINVAL\<close> if no entry matches it.
\<close>

theorem probe_two_cells:
  assumes "syscon_get_first_range dt = Inr base"
    and "ofnode_read_u32_index dt 0 = (0, 0)"
    and "dev_read_addr_cells dt = 2"
    and "ofnode_read_u32_index dt 1 = (ret1, r1)"
  shows "(ret1 \<noteq> 0 \<longrightarrow> fst (rockchip_usb2phy_probe dt s) = Inl (Errno (- EINVAL))) \<and>
         (ret1 = 0 \<and> dev_get_driver_data dt = Some (entries @ z # rest) \<and> entries \<noteq> [] \<and>
          (\<forall>c \<in> set (tl entries). reg c \<noteq> 0) \<and> reg z = 0 \<longrightarrow>
            fst (rockchip_usb2phy_probe dt s) =
              (case first_match entries r1 of
                 None \<Rightarrow> Inl (Errno (- EINVAL))
               | Some i \<Rightarrow>
                   if fst (clk_get_by_name dt) \<noteq> 0
                   then Inl (Errno (fst (clk_get_by_name dt)))
                   else Inr \<lparr>reg_base = base, phyclk = snd (clk_get_by_name dt),
                             phy_cfg = entries ! i\<rparr>))"
proof (intro conjI impI)
  assume "ret1 \<noteq> 0"
  with assms show "fst (rockchip_usb2phy_probe dt s) = Inl (Errno (- EINVAL))"
    by (simp add: rockchip_usb2phy_probe_def)
next
  assume h: "ret1 = 0 \<and> dev_get_driver_data dt = Some (entries @ z # rest) \<and> entries \<noteq> [] \<and>
          (\<forall>c \<in> set (tl entries). reg c \<noteq> 0) \<and> reg z = 0"
  with assms have "rockchip_usb2phy_probe dt s = probe_find_cfg dt base r1 s"
    by (simp add: rockchip_usb2phy_probe_def)
  with h show "fst (rockchip_usb2phy_probe dt s) =
              (case first_match entries r1 of
                 None \<Rightarrow> Inl (Errno (- EINVAL))
               | Some i \<Rightarrow>
                   if fst (clk_get_by_name dt) \<noteq> 0
                   then Inl (Errno (fst (clk_get_by_name dt)))
                   else Inr \<lparr>reg_base = base, phyclk = snd (clk_get_by_name dt),
                             phy_cfg = entries ! i\<rparr>)"
    using probe_find_cfg_terminated [of dt entries z rest base r1 s] by simp
qed

theorem probe_two_cells_witness:
  "fst (rockchip_usb2phy_probe rk3568_usb2phy1 (hw_all 0)) =
     Inr \<lparr>reg_base = 0xfdc50000, phyclk = 1, phy_cfg = rk3568_phy_cfgs ! 1\<rparr> \<and>
   reg (rk3568_phy_cfgs ! 1) = 0xfe8b0000 \<and>
   fst (rockchip_usb2phy_probe rk3568_usb2phy1_short (hw_all 0)) = Inl (Errno (- EINVAL))"
proof -
  have a: "syscon_get_first_range rk3568_usb2phy1 = Inr 0xfdc50000 \<and>
      ofnode_read_u32_index rk3568_usb2phy1 0 = (0, 0) \<and>
      dev_read_addr_cells rk3568_usb2phy1 = 2 \<and>
      ofnode_read_u32_index rk3568_usb2phy1 1 = (0, 0xfe8b0000) \<and>
      clk_get_by_name rk3568_usb2phy1 = (0, 1)"
    by (simp add: rk3568_usb2phy1_def read_cells_def)
  have t: "dev_get_driver_data rk3568_usb2phy1 =
      Some ([rk3568_phy_cfgs ! 0, rk3568_phy_cfgs ! 1] @ sentinel # [])"
    unfolding rk3568_split [symmetric] by (simp add: rk3568_usb2phy1_def)
  have wf: "[rk3568_phy_cfgs ! 0, rk3568_phy_cfgs ! 1] \<noteq> [] \<and>
      (\<forall>c \<in> set (tl [rk3568_phy_cfgs ! 0, rk3568_phy_cfgs ! 1]). reg c \<noteq> 0) \<and>
      reg sentinel = 0"
    by (simp add: table_defs)
  have m: "first_match [rk3568_phy_cfgs ! 0, rk3568_phy_cfgs ! 1] 0xfe8b0000 = Some 1 \<and>
      reg (rk3568_phy_cfgs ! 1) = 0xfe8b0000"
    by (simp add: table_defs)
  have b: "syscon_get_first_range rk3568_usb2phy1_short = Inr 0xfdc50000 \<and>
      ofnode_read_u32_index rk3568_usb2phy1_short 0 = (0, 0) \<and>
      dev_read_addr_cells rk3568_usb2phy1_short = 2 \<and>
      ofnode_read_u32_index rk3568_usb2phy1_short 1 = (- EINVAL, 0)"
    by (simp add: rk3568_usb2phy1_short_def rk3568_usb2phy1_def read_cells_def)
  have e: "- EINVAL \<noteq> 0"
    by (simp add: EINVAL_def)
  have "fst (rockchip_usb2phy_probe rk3568_usb2phy1 (hw_all 0)) =
      (case first_match [rk3568_phy_cfgs ! 0, rk3568_phy_cfgs ! 1] 0xfe8b0000 of
         None \<Rightarrow> Inl (Errno (- EINVAL))
       | Some i \<Rightarrow>
           if fst (clk_get_by_name rk3568_usb2phy1) \<noteq> 0
           then Inl (Errno (fst (clk_get_by_name rk3568_usb2phy1)))
           else Inr \<lparr>reg_base = 0xfdc50000, phyclk = snd (clk_get_by_name rk3568_usb2phy1),
                     phy_cfg = [rk3568_phy_cfgs ! 0, rk3568_phy_cfgs ! 1] ! i\<rparr>)"
    using a t wf
      probe_two_cells [of rk3568_usb2phy1 "0xfdc50000" 0 "0xfe8b0000" "hw_all 0"
        "[rk3568_phy_cfgs ! 0, rk3568_phy_cfgs ! 1]" sentinel "[]"]
    by blast
  then have "fst (rockchip_usb2phy_probe rk3568_usb2phy1 (hw_all 0)) =
     Inr \<lparr>reg_base = 0xfdc50000, phyclk = 1, phy_cfg = rk3568_phy_cfgs ! 1\<rparr>"
    using m a by simp
  moreover have "fst (rockchip_usb2phy_probe rk3568_usb2phy1_short (hw_all 0)) =
     Inl (Errno (- EINVAL))"
    using b e
      probe_two_cells [of rk3568_usb2phy1_short "0xfdc50000" "- EINVAL" 0 "hw_all 0"]
    by blast
  ultimately show ?thesis
    using m by simp
qed

end
